theory Spec2Isabelle
  imports Complex_Main
begin

section \<open>JavaScript values used by the security service\<close>

text \<open>
  The service is TypeScript running on JavaScript values. A string-valued property is
  \<^verbatim>\<open>undefined\<close>, \<^verbatim>\<open>null\<close> or a string (\<open>string js\<close>); strict equality \<^verbatim>\<open>===\<close> on such
  values is equality in HOL. A JavaScript number is an exact real or \<^verbatim>\<open>NaN\<close>
  (\<open>None\<close>): the numbers of this code are millisecond and second counts, far below
  the range where doubles round. A string is the sequence of its UTF-8 bytes.
\<close>

datatype 'a js = Undefined | Null | Val 'a

type_synonym num = "real option"

definition truthy :: "string js \<Rightarrow> bool" where
  "truthy v = (case v of Val s \<Rightarrow> s \<noteq> [] | _ \<Rightarrow> False)"

text \<open>\<^verbatim>\<open>a || b\<close> on strings, and \<^verbatim>\<open>o && e\<close> where \<open>o\<close> is an object or missing.\<close>

definition js_or :: "string js \<Rightarrow> string js \<Rightarrow> string js" where
  "js_or a b = (if truthy a then a else b)"

definition js_and :: "'o js \<Rightarrow> ('o \<Rightarrow> string js) \<Rightarrow> string js" where
  "js_and ob e = (case ob of Undefined \<Rightarrow> Undefined | Null \<Rightarrow> Null | Val m \<Rightarrow> e m)"

definition startsWith :: "string \<Rightarrow> string \<Rightarrow> bool" where
  "startsWith s p = (take (length p) s = p)"

text \<open>
  \<^verbatim>\<open>String.prototype.trim\<close> removes white space and line terminators from both ends:
  U+0009 to U+000D, U+0020, U+00A0, U+1680, U+2000 to U+200A, U+2028, U+2029, U+202F,
  U+205F, U+3000 and U+FEFF, listed here in UTF-8.
\<close>

definition white_space :: "string list" where
  "white_space =
     [ [CHR 0x09], [CHR 0x0A], [CHR 0x0B], [CHR 0x0C], [CHR 0x0D], [CHR 0x20],
       [CHR 0xC2, CHR 0xA0], [CHR 0xE1, CHR 0x9A, CHR 0x80],
       [CHR 0xE2, CHR 0x80, CHR 0x80], [CHR 0xE2, CHR 0x80, CHR 0x81],
       [CHR 0xE2, CHR 0x80, CHR 0x82], [CHR 0xE2, CHR 0x80, CHR 0x83],
       [CHR 0xE2, CHR 0x80, CHR 0x84], [CHR 0xE2, CHR 0x80, CHR 0x85],
       [CHR 0xE2, CHR 0x80, CHR 0x86], [CHR 0xE2, CHR 0x80, CHR 0x87],
       [CHR 0xE2, CHR 0x80, CHR 0x88], [CHR 0xE2, CHR 0x80, CHR 0x89],
       [CHR 0xE2, CHR 0x80, CHR 0x8A], [CHR 0xE2, CHR 0x80, CHR 0xA8],
       [CHR 0xE2, CHR 0x80, CHR 0xA9], [CHR 0xE2, CHR 0x80, CHR 0xAF],
       [CHR 0xE2, CHR 0x81, CHR 0x9F], [CHR 0xE3, CHR 0x80, CHR 0x80],
       [CHR 0xEF, CHR 0xBB, CHR 0xBF] ]"

function trimStart :: "string \<Rightarrow> string" where
  "trimStart s =
     (case find (\<lambda>w. startsWith s w) white_space of
        None \<Rightarrow> s
      | Some w \<Rightarrow> trimStart (drop (length w) s))"
  by pat_completeness auto
termination
proof (relation "measure length")
  show "wf (measure length)" by simp
next
  fix s :: string and w :: string
  assume "find (\<lambda>w. startsWith s w) white_space = Some w"
  then have "w \<in> set white_space" and st: "startsWith s w"
    by (auto simp: find_Some_iff)
  then have w: "w \<noteq> []" by (auto simp: white_space_def)
  with st have "s \<noteq> []" by (auto simp: startsWith_def)
  with w show "(drop (length w) s, s) \<in> measure length" by simp
qed

function trimEnd :: "string \<Rightarrow> string" where
  "trimEnd s =
     (case find (\<lambda>w. startsWith (rev s) (rev w)) white_space of
        None \<Rightarrow> s
      | Some w \<Rightarrow> trimEnd (take (length s - length w) s))"
  by pat_completeness auto
termination
proof (relation "measure length")
  show "wf (measure length)" by simp
next
  fix s :: string and w :: string
  assume "find (\<lambda>w. startsWith (rev s) (rev w)) white_space = Some w"
  then have "w \<in> set white_space" and st: "startsWith (rev s) (rev w)"
    by (auto simp: find_Some_iff)
  then have w: "w \<noteq> []" by (auto simp: white_space_def)
  with st have "s \<noteq> []" by (auto simp: startsWith_def)
  with w show "(take (length s - length w) s, s) \<in> measure length" by simp
qed

definition trim :: "string \<Rightarrow> string" where
  "trim s = trimEnd (trimStart s)"

text \<open>
  \<^verbatim>\<open>String(x)\<close>, as in the interpolation \<^verbatim>\<open>${x}\<close> and in a property key \<^verbatim>\<open>o[x]\<close>.
\<close>

definition to_string :: "string js \<Rightarrow> string" where
  "to_string v = (case v of Undefined \<Rightarrow> ''undefined'' | Null \<Rightarrow> ''null'' | Val s \<Rightarrow> s)"

text \<open>
  \<^verbatim>\<open>Number(x)\<close> of a JSON number that may be missing or \<^verbatim>\<open>null\<close>, and what
  \<^verbatim>\<open>JSON.stringify\<close> and \<^verbatim>\<open>JSON.parse\<close> make of a number (\<^verbatim>\<open>NaN\<close> becomes \<^verbatim>\<open>null\<close>).
\<close>

definition to_number :: "real js \<Rightarrow> num" where
  "to_number v = (case v of Undefined \<Rightarrow> None | Null \<Rightarrow> Some 0 | Val x \<Rightarrow> Some x)"

definition json_num :: "num \<Rightarrow> real js" where
  "json_num n = (case n of None \<Rightarrow> Null | Some x \<Rightarrow> Val x)"

definition num_add :: "num \<Rightarrow> num \<Rightarrow> num" where
  "num_add a b = (case a of None \<Rightarrow> None | Some x \<Rightarrow> (case b of None \<Rightarrow> None | Some y \<Rightarrow> Some (x + y)))"

definition num_sub :: "num \<Rightarrow> num \<Rightarrow> num" where
  "num_sub a b = (case a of None \<Rightarrow> None | Some x \<Rightarrow> (case b of None \<Rightarrow> None | Some y \<Rightarrow> Some (x - y)))"

definition num_times :: "num \<Rightarrow> real \<Rightarrow> num" where
  "num_times a k = (case a of None \<Rightarrow> None | Some x \<Rightarrow> Some (x * k))"

definition num_over :: "num \<Rightarrow> real \<Rightarrow> num" where
  "num_over a k = (case a of None \<Rightarrow> None | Some x \<Rightarrow> Some (x / k))"

definition num_floor :: "num \<Rightarrow> num" where
  "num_floor a = (case a of None \<Rightarrow> None | Some x \<Rightarrow> Some (of_int \<lfloor>x\<rfloor>))"

text \<open>Every comparison with \<^verbatim>\<open>NaN\<close> is false.\<close>

definition num_lt :: "num \<Rightarrow> num \<Rightarrow> bool" where
  "num_lt a b = (case a of None \<Rightarrow> False | Some x \<Rightarrow> (case b of None \<Rightarrow> False | Some y \<Rightarrow> x < y))"

definition num_gt :: "num \<Rightarrow> num \<Rightarrow> bool" where
  "num_gt a b = num_lt b a"

text \<open>
  A \<^verbatim>\<open>Date\<close> holds a time value: an integral number of milliseconds of magnitude at
  most 8.64e15, or \<^verbatim>\<open>NaN\<close> (an invalid date). \<^verbatim>\<open>new Date(v)\<close> clips \<open>v\<close> to that.
\<close>

datatype date = Date (getTime: num)

definition TimeClip :: "num \<Rightarrow> num" where
  "TimeClip v = (case v of None \<Rightarrow> None
     | Some x \<Rightarrow> if \<bar>x\<bar> > 8640000000000000 then None
                else Some (of_int (if 0 \<le> x then \<lfloor>x\<rfloor> else \<lceil>x\<rceil>)))"

definition new_Date :: "num \<Rightarrow> date" where
  "new_Date v = Date (TimeClip v)"

section \<open>Errors\<close>

text \<open>
  \<^verbatim>\<open>Unauthorized\<close>, \<^verbatim>\<open>BadRequest\<close> and \<^verbatim>\<open>Forbidden\<close> are the service's own error
  classes; \<open>JsError\<close> is any other thrown error (a \<^verbatim>\<open>TypeError\<close>, a \<^verbatim>\<open>RangeError\<close>, an
  error of a library). Each carries its message.
\<close>

datatype error = Unauthorized string | BadRequest string | Forbidden string | JsError string

fun message :: "error \<Rightarrow> string" where
  "message (Unauthorized m) = m"
| "message (BadRequest m) = m"
| "message (Forbidden m) = m"
| "message (JsError m) = m"

definition startsWith_of_undefined :: string where
  "startsWith_of_undefined = ''Cannot read property 'startsWith' of undefined''"

definition startsWith_of_null :: string where
  "startsWith_of_null = ''Cannot read property 'startsWith' of null''"

definition getTime_of_undefined :: string where
  "getTime_of_undefined = ''Cannot read property 'getTime' of undefined''"

definition getTime_not_a_function :: string where
  "getTime_not_a_function = ''auth.serial.getTime is not a function''"

definition exp_of_null :: string where
  "exp_of_null = ''Cannot read property 'exp' of null''"

definition invalid_time_value :: string where
  "invalid_time_value = ''Invalid time value''"

section \<open>Configuration\<close>

text \<open>
  The \<^verbatim>\<open>Configuration\<close> service is consumed through its accessors only; it is a
  parameter of every operation. A secret, timeout or lifetime is a string or not set
  (\<open>None\<close>); the code tests it with \<^verbatim>\<open>!\<close> only.
\<close>

record config =
  appId :: string
  httpSecret :: "string option"
  internalSecret :: "string option"
  remoteSecret :: "string js \<Rightarrow> string option"
  httpTimeout :: "string option"
  internalTimeout :: "string option"
  remoteTimeout :: "string option"
  httpLifetime :: "string option"

definition configured :: "string option \<Rightarrow> bool" where
  "configured v = (case v of None \<Rightarrow> False | Some s \<Rightarrow> s \<noteq> [])"

section \<open>Secret and timeout resolution\<close>

definition secret_msg :: "string \<Rightarrow> string js \<Rightarrow> string js \<Rightarrow> string" where
  "secret_msg subject issuer audience =
     ''Can not resolve token secret for subject: ['' @ subject @ ''], issuer: [''
       @ to_string issuer @ ''], audience: ['' @ to_string audience @ '']''"

definition timeout_msg :: "string \<Rightarrow> string js \<Rightarrow> string js \<Rightarrow> string" where
  "timeout_msg subject issuer audience =
     ''Can not resolve token timeout for subject: ['' @ subject @ ''], issuer: [''
       @ to_string issuer @ ''], audience: ['' @ to_string audience @ '']''"

text \<open>
  \<^verbatim>\<open>BaseSecurity.secret\<close>: the local \<^verbatim>\<open>secret\<close> stays undefined when no branch of the
  chain is taken; \<^verbatim>\<open>!secret\<close> holds for undefined and for the empty string.
  \<^verbatim>\<open>subject.startsWith\<close> on an undefined or null subject is a \<^verbatim>\<open>TypeError\<close>.
\<close>

definition secret :: "config \<Rightarrow> string js \<Rightarrow> string js \<Rightarrow> string js \<Rightarrow> error + string" where
  "secret C subject issuer audience =
     (case subject of
        Undefined \<Rightarrow> Inl (JsError startsWith_of_undefined)
      | Null \<Rightarrow> Inl (JsError startsWith_of_null)
      | Val s \<Rightarrow>
          (let found =
             (if startsWith s ''user:'' then httpSecret C
              else if s = ''internal'' \<and> audience = Val (appId C) \<and> issuer = audience
                then internalSecret C
              else if s = ''remote'' \<and> audience = Val (appId C) \<and> issuer = audience
                then internalSecret C
              else if s = ''remote'' \<and> audience = Val (appId C) \<and> issuer \<noteq> audience
                then remoteSecret C issuer
              else if s = ''remote'' \<and> issuer = Val (appId C) \<and> issuer \<noteq> audience
                then remoteSecret C audience
              else None)
           in (case found of
                 None \<Rightarrow> Inl (Unauthorized (secret_msg s issuer audience))
               | Some k \<Rightarrow> if k = [] then Inl (Unauthorized (secret_msg s issuer audience))
                           else Inr k)))"

text \<open>\<^verbatim>\<open>BaseSecurity.timeout\<close>, the same shape with its own conditions.\<close>

definition timeout :: "config \<Rightarrow> string js \<Rightarrow> string js \<Rightarrow> string js \<Rightarrow> error + string" where
  "timeout C subject issuer audience =
     (case subject of
        Undefined \<Rightarrow> Inl (JsError startsWith_of_undefined)
      | Null \<Rightarrow> Inl (JsError startsWith_of_null)
      | Val s \<Rightarrow>
          (let found =
             (if startsWith s ''user:'' then httpTimeout C
              else if s = ''internal'' \<and> audience = Val (appId C)
                then internalTimeout C
              else if s = ''remote'' \<and> audience = Val (appId C) \<and> issuer = audience
                then internalTimeout C
              else if s = ''remote'' \<and> audience = Val (appId C) \<and> issuer \<noteq> audience
                then remoteTimeout C
              else if s = ''remote'' \<and> audience \<noteq> Val (appId C)
                then remoteTimeout C
              else None)
           in (case found of
                 None \<Rightarrow> Inl (Unauthorized (timeout_msg s issuer audience))
               | Some k \<Rightarrow> if k = [] then Inl (Unauthorized (timeout_msg s issuer audience))
                           else Inr k)))"

section \<open>Data model\<close>

text \<open>
  \<^verbatim>\<open>Roles\<close> is an object from role names to booleans; \<^verbatim>\<open>roles[r]\<close> reads the property
  named \<^verbatim>\<open>String(r)\<close>.
\<close>

record permission_metadata =
  method_name :: string
  roles :: "string \<rightharpoonup> bool"

definition allows :: "permission_metadata \<Rightarrow> string \<Rightarrow> bool" where
  "allows permission r = (roles permission r = Some True)"

text \<open>
  The claims of a \<^verbatim>\<open>WebToken\<close> that the service reads, as JSON gives them: each is
  missing, \<^verbatim>\<open>null\<close> or a value. The claims \<^verbatim>\<open>exp\<close>, \<^verbatim>\<open>email\<close>, \<^verbatim>\<open>name\<close>, \<^verbatim>\<open>role\<close> and
  \<^verbatim>\<open>scope\<close> carry the prefix \<open>jwt_\<close> here.
\<close>

record web_token =
  jti :: "string js"
  ist :: "real js"
  iss :: "string js"
  aud :: "string js"
  sub :: "string js"
  iat :: "real js"
  nbf :: "real js"
  jwt_exp :: "real js"
  oid :: "string js"
  jwt_email :: "string js"
  jwt_name :: "string js"
  ipaddr :: "string js"
  jwt_role :: "string js"
  jwt_scope :: "string js"

text \<open>\<^verbatim>\<open>IssueRequest.serial\<close> is a number (maybe \<^verbatim>\<open>NaN\<close>), a \<^verbatim>\<open>Date\<close>, or absent.\<close>

datatype serial_value = SerialDate date | SerialNum num

text \<open>
  \<^verbatim>\<open>renew\<close> hands its \<^verbatim>\<open>AuthInfo\<close> to \<^verbatim>\<open>issueToken\<close> as the \<^verbatim>\<open>IssueRequest\<close>: the
  fields of a request are fields of an \<^verbatim>\<open>AuthInfo\<close>, so \<open>auth_info\<close> extends
  \<open>issue_request\<close> and \<open>issueToken\<close> works on both.
\<close>

record issue_request =
  tokenId :: "string js"
  audience :: "string js"
  subject :: "string js"
  userId :: "string js"
  role :: "string js"
  scope :: "string js"
  serial :: "serial_value option"
  email :: "string js"
  ipAddress :: "string js"

record auth_info = issue_request +
  issuer :: "string js"
  remote :: bool
  name :: "string js"
  issued :: "date option"
  expires :: "date option"
  token :: "string js"
  renewed :: bool

text \<open>\<^verbatim>\<open>Context\<close>; its request id is the field \<open>ctx_requestId\<close>.\<close>

record Context =
  ctx_requestId :: string
  permission :: permission_metadata
  auth :: auth_info

text \<open>\<^verbatim>\<open>EventRequest\<close>, \<^verbatim>\<open>RemoteRequest\<close> and \<^verbatim>\<open>HttpRequest\<close>, as far as read here.\<close>

record event_request =
  requestId :: string

record remote_request = event_request +
  req_token :: "string js"

record http_request = event_request +
  headers :: "(string \<Rightarrow> string js) js"
  queryStringParameters :: "(string \<Rightarrow> string js) js"
  pathParameters :: "(string \<Rightarrow> string js) js"
  sourceIp :: "string js"

section \<open>The libraries\<close>

text \<open>
  \<^verbatim>\<open>jsonwebtoken\<close>, \<^verbatim>\<open>ms\<close>, the date parser and formatter of the engine and
  \<^verbatim>\<open>Utils.uuid\<close> are not part of the service; they are parameters. \<open>JWT_sign\<close> is
  called with the payload object, the secret and the options, and \<open>JWT_verify\<close> with
  the token and the secret; both read the clock, and throw an error with a message
  (\<open>Inl\<close>). \<open>JWT_decode\<close> returns the claims or \<^verbatim>\<open>null\<close>. \<open>MS\<close> returns a number or
  \<^verbatim>\<open>undefined\<close> (\<open>None\<close>), or throws.
\<close>

record sign_payload =
  p_oid :: "string js"
  p_role :: "string js"
  p_scope :: "string js"
  p_ist :: num
  p_email :: "string js"
  p_ipaddr :: "string js"

record sign_options =
  jwtid :: "string js"
  opt_issuer :: string
  opt_audience :: "string js"
  opt_subject :: "string js"
  expiresIn :: string

record lib =
  JWT_decode :: "string js \<Rightarrow> web_token option"
  JWT_verify :: "string js \<Rightarrow> string \<Rightarrow> real \<Rightarrow> string + web_token"
  JWT_sign :: "sign_payload \<Rightarrow> string \<Rightarrow> sign_options \<Rightarrow> real \<Rightarrow> string + string"
  MS :: "string option \<Rightarrow> string + num"
  Date_parse :: "string \<Rightarrow> num"
  iso_string :: "real \<Rightarrow> string"
  uuid :: string

text \<open>
  \<^verbatim>\<open>new Date(v)\<close> for a string that may be undefined (an invalid date) or \<^verbatim>\<open>null\<close>
  (the epoch), and \<^verbatim>\<open>d.toISOString()\<close>.
\<close>

definition new_Date_of :: "lib \<Rightarrow> string js \<Rightarrow> date" where
  "new_Date_of L v =
     (case v of
        Undefined \<Rightarrow> Date None
      | Null \<Rightarrow> Date (Some 0)
      | Val t \<Rightarrow> Date (TimeClip (Date_parse L t)))"

definition toISOString :: "lib \<Rightarrow> date \<Rightarrow> error + string" where
  "toISOString L d = (case getTime d of None \<Rightarrow> Inl (JsError invalid_time_value)
                      | Some t \<Rightarrow> Inr (iso_string L t))"

section \<open>Issuing a token\<close>

text \<open>
  \<^verbatim>\<open>BaseSecurity.issueToken\<close>. The request object is updated in place (token id and
  audience get their defaults) before anything can throw, so the updated request is
  returned beside the result. \<open>now\<close> is the clock reading of the call.
\<close>

definition serial_ms :: "real \<Rightarrow> serial_value option \<Rightarrow> num" where
  "serial_ms now v =
     (case v of
        Some (SerialDate d) \<Rightarrow> getTime d
      | Some (SerialNum n) \<Rightarrow>
          (case n of None \<Rightarrow> Some now | Some x \<Rightarrow> if x = 0 then Some now else Some x)
      | None \<Rightarrow> Some now)"

definition issue_payload :: "real \<Rightarrow> 'a issue_request_scheme \<Rightarrow> sign_payload" where
  "issue_payload now req =
     \<lparr> p_oid = userId req, p_role = role req, p_scope = scope req,
       p_ist = num_floor (num_over (serial_ms now (serial req)) 1000),
       p_email = email req, p_ipaddr = ipAddress req \<rparr>"

definition issue_options :: "config \<Rightarrow> string \<Rightarrow> 'a issue_request_scheme \<Rightarrow> sign_options" where
  "issue_options C tmo req =
     \<lparr> jwtid = tokenId req, opt_issuer = appId C, opt_audience = audience req,
       opt_subject = subject req, expiresIn = tmo \<rparr>"

definition issueToken ::
  "lib \<Rightarrow> config \<Rightarrow> real \<Rightarrow> 'a issue_request_scheme
     \<Rightarrow> 'a issue_request_scheme \<times> (error + string)" where
  "issueToken L C now req0 =
     (let req1 = req0\<lparr>tokenId := js_or (tokenId req0) (Val (uuid L))\<rparr>;
          req = req1\<lparr>audience := js_or (audience req1) (Val (appId C))\<rparr>
      in (case secret C (subject req) (Val (appId C)) (audience req) of
            Inl e \<Rightarrow> (req, Inl e)
          | Inr sec \<Rightarrow>
              (case timeout C (subject req) (Val (appId C)) (audience req) of
                 Inl e \<Rightarrow> (req, Inl e)
               | Inr tmo \<Rightarrow>
                   (case JWT_sign L (issue_payload now req) sec (issue_options C tmo req) now of
                      Inl m \<Rightarrow> (req, Inl (JsError m))
                    | Inr tok \<Rightarrow> (req, Inr tok)))))"

section \<open>Verifying a token\<close>

definition strip_bearer :: "string js \<Rightarrow> string js" where
  "strip_bearer tok =
     (case tok of
        Val t \<Rightarrow> if t \<noteq> [] \<and> startsWith t ''Bearer'' then Val (trim (drop 6 t)) else Val t
      | other \<Rightarrow> other)"

text \<open>
  The \<^verbatim>\<open>catch\<close> block of \<^verbatim>\<open>verify\<close>: \<open>jwt\<close> is what \<^verbatim>\<open>JWT.decode\<close> returned (the
  variable is reassigned only when \<^verbatim>\<open>JWT.verify\<close> returns), \<open>e\<close> what was thrown.
\<close>

definition verify_catch :: "lib \<Rightarrow> real \<Rightarrow> web_token option \<Rightarrow> error \<Rightarrow> error" where
  "verify_catch L now jwt e =
     (if message e = ''jwt expired'' then
        (case jwt of
           None \<Rightarrow> JsError exp_of_null
         | Some j \<Rightarrow>
             (case toISOString L (new_Date (num_times (to_number (jwt_exp j)) 1000)) of
                Inl e' \<Rightarrow> e'
              | Inr ex \<Rightarrow> Unauthorized (''Token: expired ['' @ ex @ ''] < [''
                                          @ iso_string L now @ '']'')))
      else BadRequest (''Token: '' @ message e))"

text \<open>
  The \<^verbatim>\<open>try\<close> block of \<^verbatim>\<open>verify\<close>, after the prefix is stripped: decode, resolve the
  secret (\<^verbatim>\<open>"NULL"\<close> when nothing was decoded), verify.
\<close>

definition verify_try :: "lib \<Rightarrow> config \<Rightarrow> real \<Rightarrow> string js \<Rightarrow> error + web_token" where
  "verify_try L C now tok =
     (let jwt = JWT_decode L tok in
      (case (case jwt of None \<Rightarrow> Inr ''NULL'' | Some j \<Rightarrow> secret C (sub j) (iss j) (aud j)) of
         Inl e \<Rightarrow> Inl (verify_catch L now jwt e)
       | Inr sec \<Rightarrow>
           (case JWT_verify L tok sec now of
              Inl m \<Rightarrow> Inl (verify_catch L now jwt (JsError m))
            | Inr j \<Rightarrow> Inr j)))"

definition verified_auth :: "web_token \<Rightarrow> string js \<Rightarrow> auth_info" where
  "verified_auth jwt tok =
     \<lparr> tokenId = jti jwt, audience = aud jwt, subject = sub jwt, userId = oid jwt,
       role = jwt_role jwt, scope = jwt_scope jwt,
       serial = Some (SerialDate (new_Date (num_times (to_number (ist jwt)) 1000))),
       email = jwt_email jwt, ipAddress = ipaddr jwt,
       issuer = iss jwt, remote = (iss jwt \<noteq> aud jwt), name = jwt_name jwt,
       issued = Some (new_Date (num_times (to_number (iat jwt)) 1000)),
       expires = Some (new_Date (num_times (to_number (jwt_exp jwt)) 1000)),
       token = tok, renewed = False \<rparr>"

text \<open>
  The checks of \<^verbatim>\<open>verify\<close> on the verified claims, in the order of the source:
  audience, ip address, role, then the age computed from \<^verbatim>\<open>new Date(jwt.iss)\<close>.
\<close>

definition verify_checks ::
  "lib \<Rightarrow> config \<Rightarrow> real \<Rightarrow> string \<Rightarrow> string js \<Rightarrow> permission_metadata
     \<Rightarrow> string js \<Rightarrow> web_token \<Rightarrow> error + Context" where
  "verify_checks L C now rid tok perm ipAddr jwt =
     (if aud jwt \<noteq> Val (appId C) then
        Inl (Unauthorized (''Invalid audience: '' @ to_string (aud jwt)))
      else if jwt_role jwt \<noteq> Val ''Application'' \<and> truthy ipAddr \<and> ipaddr jwt \<noteq> ipAddr then
        Inl (Unauthorized (''Invalid request IP address: '' @ to_string (ipaddr jwt)))
      else if jwt_role jwt \<noteq> Val ''Application'' \<and> \<not> allows perm (to_string (jwt_role jwt)) then
        Inl (Unauthorized (''Role ['' @ to_string (jwt_role jwt)
               @ ''] not authorized to access method ['' @ method_name perm @ '']''))
      else
        (case timeout C (sub jwt) (iss jwt) (aud jwt) of
           Inl e \<Rightarrow> Inl e
         | Inr tmo \<Rightarrow>
             (case MS L (Some tmo) of
                Inl m \<Rightarrow> Inl (JsError m)
              | Inr d \<Rightarrow>
                  (let expiry = num_add (getTime (new_Date_of L (iss jwt))) d in
                   if num_lt expiry (Some now) then
                     (case toISOString L (new_Date expiry) of
                        Inl e \<Rightarrow> Inl e
                      | Inr ex \<Rightarrow> Inl (Unauthorized (''Token: expired ['' @ ex @ '']'')))
                   else
                     Inr \<lparr> ctx_requestId = rid, permission = perm,
                           auth = verified_auth jwt tok \<rparr>))))"

definition verify ::
  "lib \<Rightarrow> config \<Rightarrow> real \<Rightarrow> string \<Rightarrow> string js \<Rightarrow> permission_metadata
     \<Rightarrow> string js \<Rightarrow> error + Context" where
  "verify L C now rid tok0 perm ipAddr =
     (let tok = strip_bearer tok0 in
      (case verify_try L C now tok of
         Inl e \<Rightarrow> Inl e
       | Inr jwt \<Rightarrow> verify_checks L C now rid tok perm ipAddr jwt))"

section \<open>Renewal\<close>

text \<open>
  \<^verbatim>\<open>BaseSecurity.renew\<close> updates the \<^verbatim>\<open>AuthInfo\<close> object in place and returns it, or
  throws; what was written before a throw stays written, so the updated object is
  returned in both cases, with the error if there is one.
\<close>

definition renew :: "lib \<Rightarrow> config \<Rightarrow> real \<Rightarrow> auth_info \<Rightarrow> auth_info \<times> error option" where
  "renew L C now auth0 =
     (let a = auth0\<lparr>renewed := False\<rparr> in
      if issuer a \<noteq> Val (appId C) \<or> \<not> configured (httpLifetime C) then (a, None)
      else if subject a \<noteq> Val ''user:internal'' \<and> subject a \<noteq> Val ''user:external''
        then (a, None)
      else
        (case expires a of
           None \<Rightarrow> (a, Some (JsError getTime_of_undefined))
         | Some ex \<Rightarrow>
             (let untilExp = num_sub (getTime ex) (Some now) in
              (case MS L (httpTimeout C) of
                 Inl m \<Rightarrow> (a, Some (JsError m))
               | Inr t \<Rightarrow>
                   if num_gt untilExp (num_over t 2) then (a, None)
                   else
                     (case serial a of
                        None \<Rightarrow> (a, Some (JsError getTime_of_undefined))
                      | Some (SerialNum n) \<Rightarrow> (a, Some (JsError getTime_not_a_function))
                      | Some (SerialDate sd) \<Rightarrow>
                          (case MS L (httpLifetime C) of
                             Inl m \<Rightarrow> (a, Some (JsError m))
                           | Inr life \<Rightarrow>
                               if num_gt (num_sub (getTime ex) (getTime sd)) life then (a, None)
                               else
                                 (case issueToken L C now a of
                                    (a', Inl e) \<Rightarrow> (a', Some e)
                                  | (a', Inr tok) \<Rightarrow>
                                      (a'\<lparr>token := Val tok, renewed := True\<rparr>, None))))))))"

section \<open>The three entry points\<close>

definition http_token :: "'a http_request_scheme \<Rightarrow> string js" where
  "http_token req =
     js_or
       (js_or
          (js_and (headers req) (\<lambda>h. js_or (h ''Authorization'') (h ''authorization'')))
          (js_and (queryStringParameters req) (\<lambda>q. js_or (q ''authorization'') (q ''token''))))
       (js_and (pathParameters req) (\<lambda>pp. pp ''authorization''))"

definition public_auth :: "config \<Rightarrow> real \<Rightarrow> string \<Rightarrow> string js \<Rightarrow> auth_info" where
  "public_auth C now rid tok =
     \<lparr> tokenId = Val rid, audience = Val (appId C), subject = Val ''user:public'',
       userId = Null, role = Val ''Public'', scope = Undefined, serial = None,
       email = Undefined, ipAddress = Undefined,
       issuer = Val (appId C), remote = False, name = Undefined,
       issued = Some (new_Date (Some now)),
       expires = Some (new_Date (Some (now + 60000))),
       token = tok, renewed = False \<rparr>"

text \<open>
  \<^verbatim>\<open>BaseSecurity.httpAuth\<close>. In the debug branch the context is reassigned as soon
  as \<^verbatim>\<open>verify\<close> returns, so an error thrown by \<^verbatim>\<open>renew\<close> afterwards is swallowed with
  the verified context (as \<^verbatim>\<open>renew\<close> left it) in place.
\<close>

definition httpAuth ::
  "lib \<Rightarrow> config \<Rightarrow> real \<Rightarrow> 'a http_request_scheme \<Rightarrow> permission_metadata
     \<Rightarrow> error + Context" where
  "httpAuth L C now req perm =
     (let tok = http_token req in
      if \<not> allows perm ''Public'' \<and> \<not> allows perm ''Debug'' then
        (if \<not> truthy tok then Inl (Unauthorized ''Missing authorization token'')
         else
           (case verify L C now (requestId req) tok perm (sourceIp req) of
              Inl e \<Rightarrow> Inl e
            | Inr ctx \<Rightarrow>
                (case renew L C now (auth ctx) of
                   (a, Some e) \<Rightarrow> Inl e
                 | (a, None) \<Rightarrow> Inr (ctx\<lparr>auth := a\<rparr>))))
      else
        (let ctx0 = \<lparr> ctx_requestId = requestId req, permission = perm,
                      auth = public_auth C now (requestId req) tok \<rparr>
         in if allows perm ''Debug'' then
              (if sourceIp req \<noteq> Val ''127.0.0.1'' \<and> sourceIp req \<noteq> Val ''::1'' then
                 Inl (Forbidden ''Debug role only valid for localhost'')
               else
                 (let ctx1 = ctx0\<lparr>auth := (auth ctx0)\<lparr>subject := Val ''user:debug'',
                                                        role := Val ''Debug''\<rparr>\<rparr>
                  in if truthy tok then
                       (case verify L C now (requestId req) tok perm (sourceIp req) of
                          Inl e \<Rightarrow> Inr ctx1
                        | Inr ctx \<Rightarrow> Inr (ctx\<lparr>auth := fst (renew L C now (auth ctx))\<rparr>))
                     else Inr ctx1))
            else Inr ctx0))"

text \<open>\<^verbatim>\<open>BaseSecurity.remoteAuth\<close>: \<^verbatim>\<open>verify\<close> is called with a null ip address.\<close>

definition remoteAuth ::
  "lib \<Rightarrow> config \<Rightarrow> real \<Rightarrow> 'a remote_request_scheme \<Rightarrow> permission_metadata
     \<Rightarrow> error + Context" where
  "remoteAuth L C now req perm =
     (if \<not> allows perm ''Remote'' \<and> \<not> allows perm ''Internal'' then
        Inl (Forbidden (''Remote requests not allowed for method ['' @ method_name perm @ '']''))
      else
        (case verify L C now (requestId req) (req_token req) perm Null of
           Inl e \<Rightarrow> Inl e
         | Inr ctx \<Rightarrow>
             if remote (auth ctx) \<and> \<not> allows perm ''Remote'' then
               Inl (Unauthorized (''Internal request allowed only for method [''
                      @ method_name perm @ '']''))
             else Inr ctx))"

text \<open>\<^verbatim>\<open>BaseSecurity.eventAuth\<close>.\<close>

definition eventAuth ::
  "config \<Rightarrow> real \<Rightarrow> 'a event_request_scheme \<Rightarrow> permission_metadata \<Rightarrow> error + Context" where
  "eventAuth C now req perm =
     (if \<not> allows perm ''Internal'' then
        Inl (Forbidden (''Internal events not allowed for method ['' @ method_name perm @ '']''))
      else
        Inr \<lparr> ctx_requestId = requestId req, permission = perm,
              auth = \<lparr> tokenId = Val (requestId req), audience = Val (appId C),
                       subject = Val ''event'', userId = Null, role = Val ''Internal'',
                       scope = Undefined, serial = None, email = Undefined,
                       ipAddress = Undefined,
                       issuer = Val (appId C), remote = False, name = Undefined,
                       issued = Some (new_Date (Some now)),
                       expires = Some (new_Date (Some (now + 60000))),
                       token = Null, renewed = False \<rparr> \<rparr>)"

section \<open>The resolution rules as the specification words them\<close>

text \<open>
  The specification gives secret resolution as five ordered rules, the first match
  winning, and \<^verbatim>\<open>Unauthorized\<close> when none matches or the matched secret is empty.
  \<open>secret_spec\<close> follows those words; it is compared with \<open>secret\<close> below.
\<close>

fun first_match :: "(bool \<times> 'a) list \<Rightarrow> 'a option" where
  "first_match [] = None"
| "first_match ((c, v) # rs) = (if c then Some v else first_match rs)"

definition secret_rules ::
  "config \<Rightarrow> string \<Rightarrow> string js \<Rightarrow> string js \<Rightarrow> (bool \<times> string option) list" where
  "secret_rules C s i a =
     [ (startsWith s ''user:'', httpSecret C),
       (s = ''internal'' \<and> a = Val (appId C) \<and> i = Val (appId C), internalSecret C),
       (s = ''remote'' \<and> a = Val (appId C) \<and> i = Val (appId C), internalSecret C),
       (s = ''remote'' \<and> a = Val (appId C) \<and> i \<noteq> a, remoteSecret C i),
       (s = ''remote'' \<and> i = Val (appId C) \<and> i \<noteq> a, remoteSecret C a) ]"

definition resolved :: "string \<Rightarrow> string option option \<Rightarrow> error + string" where
  "resolved msg m =
     (case m of
        Some (Some k) \<Rightarrow> if k = [] then Inl (Unauthorized msg) else Inr k
      | Some None \<Rightarrow> Inl (Unauthorized msg)
      | None \<Rightarrow> Inl (Unauthorized msg))"

definition secret_spec :: "config \<Rightarrow> string \<Rightarrow> string js \<Rightarrow> string js \<Rightarrow> error + string" where
  "secret_spec C s i a = resolved (secret_msg s i a) (first_match (secret_rules C s i a))"

text \<open>
  The five rules of \<open>timeout\<close> in the same wording, as the amended claim C8 lists
  them: the second does not look at the issuer, and the fifth asks only that the
  audience is another application.
\<close>

definition timeout_rules ::
  "config \<Rightarrow> string \<Rightarrow> string js \<Rightarrow> string js \<Rightarrow> (bool \<times> string option) list" where
  "timeout_rules C s i a =
     [ (startsWith s ''user:'', httpTimeout C),
       (s = ''internal'' \<and> a = Val (appId C), internalTimeout C),
       (s = ''remote'' \<and> a = Val (appId C) \<and> i = Val (appId C), internalTimeout C),
       (s = ''remote'' \<and> a = Val (appId C) \<and> i \<noteq> a, remoteTimeout C),
       (s = ''remote'' \<and> a \<noteq> Val (appId C), remoteTimeout C) ]"

definition timeout_spec :: "config \<Rightarrow> string \<Rightarrow> string js \<Rightarrow> string js \<Rightarrow> error + string" where
  "timeout_spec C s i a = resolved (timeout_msg s i a) (first_match (timeout_rules C s i a))"

text \<open>Some rule of a list matches; the triples on which only a timeout rule matches.\<close>

definition matched :: "(bool \<times> 'a) list \<Rightarrow> bool" where
  "matched rs = list_ex fst rs"

definition timeout_only :: "config \<Rightarrow> string \<Rightarrow> string js \<Rightarrow> string js \<Rightarrow> bool" where
  "timeout_only C s i a =
     ((s = ''internal'' \<and> a = Val (appId C) \<and> i \<noteq> Val (appId C))
      \<or> (s = ''remote'' \<and> a \<noteq> Val (appId C) \<and> i \<noteq> Val (appId C)))"

section \<open>What the token library stamps\<close>

text \<open>
  \<^verbatim>\<open>jsonwebtoken\<close> serialises the payload as JSON (a property that is undefined is
  left out, \<^verbatim>\<open>NaN\<close> becomes \<^verbatim>\<open>null\<close>) and completes it with the options: \<^verbatim>\<open>jti\<close>,
  \<^verbatim>\<open>iss\<close>, \<^verbatim>\<open>aud\<close>, \<^verbatim>\<open>sub\<close>, \<^verbatim>\<open>iat\<close> (the clock in whole seconds) and \<^verbatim>\<open>exp\<close>
  (\<^verbatim>\<open>iat\<close> plus the time span, rounded down).
\<close>

definition stamped_exp :: "real \<Rightarrow> real \<Rightarrow> real" where
  "stamped_exp now dur = of_int \<lfloor>of_int \<lfloor>now / 1000\<rfloor> + dur / 1000\<rfloor>"

definition stamped_claims :: "sign_payload \<Rightarrow> sign_options \<Rightarrow> real \<Rightarrow> real \<Rightarrow> web_token" where
  "stamped_claims payload opts now dur =
     \<lparr> jti = jwtid opts, ist = json_num (p_ist payload), iss = Val (opt_issuer opts),
       aud = opt_audience opts, sub = opt_subject opts,
       iat = Val (of_int \<lfloor>now / 1000\<rfloor>), nbf = Undefined,
       jwt_exp = Val (stamped_exp now dur), oid = p_oid payload,
       jwt_email = p_email payload, jwt_name = Undefined, ipaddr = p_ipaddr payload,
       jwt_role = p_role payload, jwt_scope = p_scope payload \<rparr>"

text \<open>
  A token carries a signed payload and its options when the claims the service reads
  are those that were signed, after the JSON round trip.
\<close>

definition carries :: "web_token \<Rightarrow> sign_payload \<Rightarrow> sign_options \<Rightarrow> bool" where
  "carries j payload opts =
     (jti j = jwtid opts \<and> iss j = Val (opt_issuer opts) \<and> aud j = opt_audience opts
      \<and> sub j = opt_subject opts \<and> ist j = json_num (p_ist payload)
      \<and> oid j = p_oid payload \<and> jwt_email j = p_email payload
      \<and> ipaddr j = p_ipaddr payload \<and> jwt_role j = p_role payload
      \<and> jwt_scope j = p_scope payload)"

text \<open>
  The contract of the library between signing at the clock \<open>now\<close> with the life
  \<open>tm\<close> and verifying at the clock \<open>now'\<close> (before the token expires): whatever
  \<open>JWT_sign\<close> returns for a payload, a key and options with \<^verbatim>\<open>expiresIn\<close> = \<open>tm\<close> does
  not start with \<open>Bearer\<close>, decodes, and verifies with the same key, to claims that
  carry the payload and the options.
\<close>

definition sign_verify_law :: "lib \<Rightarrow> real \<Rightarrow> real \<Rightarrow> string \<Rightarrow> bool" where
  "sign_verify_law L now now' tm =
     (\<forall>payload k opts tok.
        expiresIn opts = tm \<and> JWT_sign L payload k opts now = Inr tok \<longrightarrow>
          strip_bearer (Val tok) = Val tok
          \<and> (\<exists>j. JWT_decode L (Val tok) = Some j
                 \<and> JWT_verify L (Val tok) k now' = Inr j
                 \<and> carries j payload opts))"

section \<open>A library instance over a finite table of tokens\<close>

text \<open>
  For concrete runs: the tokens that exist are listed with the key that signed them
  and their claims. Verification follows the order of \<^verbatim>\<open>jsonwebtoken\<close>: the token
  must be given and must parse, then the signature must match, then \<^verbatim>\<open>nbf\<close> and
  \<^verbatim>\<open>exp\<close> are compared with the clock in seconds. Signing returns the listed token
  with the stamped claims.
\<close>

type_synonym token_table = "(string \<times> string \<times> web_token) list"

definition table_decode :: "token_table \<Rightarrow> string js \<Rightarrow> web_token option" where
  "table_decode T tok =
     (case tok of
        Val t \<Rightarrow> (case map_of T t of None \<Rightarrow> None | Some (k, j) \<Rightarrow> Some j)
      | _ \<Rightarrow> None)"

definition table_check_exp :: "web_token \<Rightarrow> real \<Rightarrow> string + web_token" where
  "table_check_exp j clock =
     (case jwt_exp j of
        Undefined \<Rightarrow> Inr j
      | Null \<Rightarrow> Inl ''invalid exp value''
      | Val e \<Rightarrow> if e \<le> clock then Inl ''jwt expired'' else Inr j)"

definition table_verify :: "token_table \<Rightarrow> string js \<Rightarrow> string \<Rightarrow> real \<Rightarrow> string + web_token" where
  "table_verify T tok sec now =
     (if \<not> truthy tok then Inl ''jwt must be provided''
      else
        (case map_of T (to_string tok) of
           None \<Rightarrow> Inl ''jwt malformed''
         | Some (k, j) \<Rightarrow>
             if k \<noteq> sec then Inl ''invalid signature''
             else
               (case nbf j of
                  Undefined \<Rightarrow> table_check_exp j (of_int \<lfloor>now / 1000\<rfloor>)
                | Null \<Rightarrow> Inl ''invalid nbf value''
                | Val n \<Rightarrow>
                    if of_int \<lfloor>now / 1000\<rfloor> < n then Inl ''jwt not active''
                    else table_check_exp j (of_int \<lfloor>now / 1000\<rfloor>))))"

definition table_ms :: "string option \<Rightarrow> string + num" where
  "table_ms v =
     (case v of
        None \<Rightarrow> Inl ''val is not a non-empty string or a valid number''
      | Some s \<Rightarrow>
          if s = [] then Inl ''val is not a non-empty string or a valid number''
          else Inr (map_of [(''1s'', 1000), (''10s'', 10000), (''5m'', 300000),
                            (''10m'', 600000), (''1h'', 3600000), (''30d'', 2592000000)] s))"

definition table_sign ::
  "token_table \<Rightarrow> sign_payload \<Rightarrow> string \<Rightarrow> sign_options \<Rightarrow> real \<Rightarrow> string + string" where
  "table_sign T payload sec opts now =
     (case table_ms (Some (expiresIn opts)) of
        Inr (Some dur) \<Rightarrow>
          (case find (\<lambda>(t, k, j). k = sec \<and> j = stamped_claims payload opts now dur) T of
             Some (t, k, j) \<Rightarrow> Inr t
           | None \<Rightarrow> Inl ''token not in the table'')
      | Inr None \<Rightarrow> Inl ''bad expiresIn''
      | Inl m \<Rightarrow> Inl m)"

definition table_iso :: "real \<Rightarrow> string" where
  "table_iso t =
     (if t = 0 then ''1970-01-01T00:00:00.000Z''
      else if t = 3600000 then ''1970-01-01T01:00:00.000Z''
      else if t = 5000000 then ''1970-01-01T01:23:20.000Z''
      else ''some other time'')"

definition table_lib :: "token_table \<Rightarrow> lib" where
  "table_lib T =
     \<lparr> JWT_decode = table_decode T, JWT_verify = table_verify T, JWT_sign = table_sign T,
       MS = table_ms,
       Date_parse = (\<lambda>s. if s = ''1970-01-01T00:00:00.000Z'' then Some 0 else None),
       iso_string = table_iso, uuid = ''00000000-0000-4000-8000-000000000000'' \<rparr>"

definition cfg :: config where
  "cfg = \<lparr> appId = ''app'', httpSecret = Some ''http-key'', internalSecret = Some ''internal-key'',
           remoteSecret = (\<lambda>p. if p = Val ''peer'' then Some ''peer-key'' else None),
           httpTimeout = Some ''1h'', internalTimeout = Some ''5m'',
           remoteTimeout = Some ''10m'', httpLifetime = Some ''30d'' \<rparr>"

definition claims ::
  "string \<Rightarrow> string \<Rightarrow> string \<Rightarrow> string \<Rightarrow> real \<Rightarrow> real \<Rightarrow> real \<Rightarrow> web_token" where
  "claims s i a r first issued_at expiry =
     \<lparr> jti = Val ''id-1'', ist = Val first, iss = Val i, aud = Val a, sub = Val s,
       iat = Val issued_at, nbf = Undefined, jwt_exp = Val expiry, oid = Val ''u1'',
       jwt_email = Undefined, jwt_name = Undefined, ipaddr = Undefined, jwt_role = Val r,
       jwt_scope = Undefined \<rparr>"

definition user_claims :: "real \<Rightarrow> real \<Rightarrow> real \<Rightarrow> web_token" where
  "user_claims first issued_at expiry =
     (claims ''user:internal'' ''app'' ''app'' ''Admin'' first issued_at expiry)
       \<lparr> ipaddr := Val ''127.0.0.1'' \<rparr>"

text \<open>
  The tokens of the runs below. \<open>tok-peer\<close> was issued by the application \<open>peer\<close>;
  \<open>tok-forged\<close> is signed with a key that is not the HTTP secret; \<open>tok-event\<close> has a
  subject for which no secret rule exists; \<open>tok-nan\<close> was issued for a request whose
  serial is an invalid date.
\<close>

definition tokens :: token_table where
  "tokens =
     [ (''tok-peer'', ''peer-key'', claims ''remote'' ''peer'' ''app'' ''Internal'' 900 900 1500),
       (''tok-user'', ''http-key'', user_claims 0 0 3600),
       (''tok-user-2'', ''http-key'', user_claims 0 2000 5600),
       (''tok-forged'', ''other-key'', user_claims 0 0 3600),
       (''tok-event'', ''internal-key'', claims ''event'' ''app'' ''app'' ''Internal'' 0 0 3600),
       (''tok-issued'', ''http-key'', user_claims 1 1000 4600),
       (''tok-short'', ''http-key'', user_claims 0 1000 1001),
       (''tok-nan'', ''http-key'', (user_claims 0 1000 4600)\<lparr>ist := Null\<rparr>) ]"

definition perm_of :: "(string \<times> bool) list \<Rightarrow> permission_metadata" where
  "perm_of rs = \<lparr> method_name = ''Api.method'', roles = map_of rs \<rparr>"

definition http_req :: "string js \<Rightarrow> string js \<Rightarrow> http_request" where
  "http_req authorization ip =
     \<lparr> requestId = ''r1'',
       headers = Val (\<lambda>h. if h = ''Authorization'' then authorization else Undefined),
       queryStringParameters = Undefined, pathParameters = Undefined, sourceIp = ip \<rparr>"

definition issue_req :: "real \<Rightarrow> issue_request" where
  "issue_req first_ms =
     \<lparr> tokenId = Val ''id-1'', audience = Undefined, subject = Val ''user:internal'',
       userId = Val ''u1'', role = Val ''Admin'', scope = Undefined,
       serial = Some (SerialDate (Date (Some first_ms))), email = Undefined,
       ipAddress = Val ''127.0.0.1'' \<rparr>"

section \<open>Properties\<close>

subsection \<open>Auxiliary facts\<close>

lemma verify_checks_Inr:
  assumes "verify_checks L C now rid tok perm ip jwt = Inr ctx"
  shows "ctx = \<lparr> ctx_requestId = rid, permission = perm, auth = verified_auth jwt tok \<rparr>"
    and "aud jwt = Val (appId C)"
    and "jwt_role jwt = Val ''Application'' \<or> allows perm (to_string (jwt_role jwt))"
  using assms unfolding verify_checks_def Let_def
  by (simp_all split: if_splits sum.splits)

lemma verify_Inr:
  assumes "verify L C now rid tok0 perm ip = Inr ctx"
  shows "\<exists>jwt. verify_try L C now (strip_bearer tok0) = Inr jwt
           \<and> ctx = \<lparr> ctx_requestId = rid, permission = perm,
                     auth = verified_auth jwt (strip_bearer tok0) \<rparr>
           \<and> aud jwt = Val (appId C)
           \<and> (jwt_role jwt = Val ''Application'' \<or> allows perm (to_string (jwt_role jwt)))"
proof (cases "verify_try L C now (strip_bearer tok0)")
  case (Inl e)
  with assms show ?thesis by (simp add: verify_def)
next
  case (Inr jwt)
  with assms have "verify_checks L C now rid (strip_bearer tok0) perm ip jwt = Inr ctx"
    by (simp add: verify_def)
  from verify_checks_Inr[OF this] Inr show ?thesis by blast
qed

lemma issueToken_fst:
  "fst (issueToken L C now r) =
     r\<lparr>tokenId := js_or (tokenId r) (Val (uuid L)),
       audience := js_or (audience r) (Val (appId C))\<rparr>"
  unfolding issueToken_def Let_def
  by (simp split: sum.split)

lemma issueToken_eq:
  assumes "issueToken L C now r = (r', res)"
  shows "r' = r\<lparr>tokenId := js_or (tokenId r) (Val (uuid L)),
                audience := js_or (audience r) (Val (appId C))\<rparr>"
  using issueToken_fst[of L C now r] assms by simp

lemma issueToken_Inr:
  assumes "issueToken L C now r = (r', Inr tok)"
  shows "\<exists>k tm. secret C (subject r') (Val (appId C)) (audience r') = Inr k
           \<and> timeout C (subject r') (Val (appId C)) (audience r') = Inr tm
           \<and> JWT_sign L (issue_payload now r') k (issue_options C tm r') now = Inr tok"
proof -
  from issueToken_eq[OF assms] have r': "r' = r\<lparr>tokenId := js_or (tokenId r) (Val (uuid L)),
                audience := js_or (audience r) (Val (appId C))\<rparr>" .
  from assms show ?thesis
    unfolding issueToken_def Let_def r'
    by (auto split: sum.splits)
qed

lemma renew_role: "role (fst (renew L C now a)) = role a"
  unfolding renew_def Let_def
  by (auto split: option.split sum.split serial_value.split prod.split dest!: issueToken_eq)

lemmas run_defs =
  verify_def verify_try_def verify_catch_def verify_checks_def verified_auth_def
  strip_bearer_def startsWith_def trim_def white_space_def
  secret_def timeout_def secret_msg_def timeout_msg_def to_string_def truthy_def js_or_def
  js_and_def configured_def to_number_def json_num_def
  table_lib_def table_decode_def table_verify_def table_check_exp_def table_ms_def
  table_sign_def table_iso_def
  tokens_def claims_def user_claims_def cfg_def perm_of_def allows_def
  num_add_def num_sub_def num_times_def num_over_def num_floor_def num_lt_def num_gt_def
  TimeClip_def new_Date_def new_Date_of_def toISOString_def

lemmas issue_defs =
  issueToken_def issue_payload_def issue_options_def serial_ms_def issue_req_def
  stamped_claims_def stamped_exp_def carries_def

subsection \<open>Secret resolution\<close>

text \<open>
  Claim C7. For a subject string, \<open>secret\<close> evaluates exactly the five ordered rules of
  the specification, the first match winning: a subject starting with \<open>user:\<close> gives
  the HTTP secret; \<open>internal\<close> with audience = issuer = this application the internal
  secret; \<open>remote\<close> with audience = issuer = this application the internal secret;
  \<open>remote\<close> into this application from another issuer the secret of that issuer;
  \<open>remote\<close> from this application to another audience the secret of that audience.
  When no rule matches or the matched secret is empty the result is \<open>Unauthorized\<close>,
  and a returned secret is never empty.
\<close>

theorem secret_five_rules:
  "secret C (Val s) i a = secret_spec C s i a
   \<and> (case secret C (Val s) i a of
         Inl e \<Rightarrow> e = Unauthorized (secret_msg s i a)
       | Inr k \<Rightarrow> k \<noteq> [])"
  by (cases "a = Val (appId C)"; cases "i = a"; cases "i = Val (appId C)";
      cases "s = ''remote''"; cases "s = ''internal''";
      simp add: secret_def secret_spec_def secret_rules_def resolved_def split: option.split)

theorem secret_five_rules_witness:
  "secret cfg (Val ''remote'') (Val ''peer'') (Val ''app'') = Inr ''peer-key''
   \<and> secret cfg (Val ''event'') (Val ''app'') (Val ''app'')
       = Inl (Unauthorized (secret_msg ''event'' (Val ''app'') (Val ''app'')))"
  using secret_five_rules [of cfg "''remote''" "Val ''peer''" "Val ''app''"]
    secret_five_rules [of cfg "''event''" "Val ''app''" "Val ''app''"]
  by (simp add: secret_spec_def secret_rules_def resolved_def cfg_def startsWith_def)

subsection \<open>Timeout resolution\<close>

text \<open>
  Claim C8, as stated, is false: for the subject \<open>internal\<close> with this application as
  audience and another issuer, and for the subject \<open>remote\<close> with another issuer and
  another audience, a timeout is resolved although no secret rule matches.
\<close>

theorem timeout_not_same_conditions:
  "timeout cfg (Val ''internal'') (Val ''peer'') (Val ''app'') = Inr ''5m''
   \<and> secret cfg (Val ''internal'') (Val ''peer'') (Val ''app'')
       = Inl (Unauthorized
           ''Can not resolve token secret for subject: [internal], issuer: [peer], audience: [app]'')
   \<and> timeout cfg (Val ''remote'') (Val ''peer'') (Val ''other'') = Inr ''10m''
   \<and> secret cfg (Val ''remote'') (Val ''peer'') (Val ''other'')
       = Inl (Unauthorized
           ''Can not resolve token secret for subject: [remote], issuer: [peer], audience: [other]'')"
  by (simp add: timeout_def secret_def cfg_def startsWith_def secret_msg_def to_string_def)

text \<open>
  Claim C8, amended. For a subject string, \<open>timeout\<close> evaluates five ordered rules, the
  first match winning, and selects the HTTP, internal or remote lifetime: \<open>user:\<close>
  prefix; \<open>internal\<close> with this application as audience (any issuer); \<open>remote\<close> with
  audience = issuer = this application; \<open>remote\<close> into this application from another
  issuer; \<open>remote\<close> with another audience (any issuer). It fails with \<open>Unauthorized\<close>
  exactly when none of these matches or the selected lifetime is empty, and a returned
  lifetime is never empty. Rule by rule, where the condition of a secret rule holds
  the condition of the timeout rule of the same number holds. Some timeout rule
  matches exactly where some secret rule matches or the triple is
  (\<open>internal\<close>, an issuer other than this application, this application) or
  (\<open>remote\<close>, an issuer other than this application, an audience other than this
  application); on these two kinds of triples no secret rule matches and \<open>secret\<close>
  fails with \<open>Unauthorized\<close>.
\<close>

theorem timeout_five_rules:
  "timeout C (Val s) i a = timeout_spec C s i a
   \<and> (case timeout C (Val s) i a of
         Inl e \<Rightarrow> e = Unauthorized (timeout_msg s i a)
       | Inr k \<Rightarrow> k \<noteq> [])
   \<and> list_all2 (\<lambda>p q. fst p \<longrightarrow> fst q) (secret_rules C s i a) (timeout_rules C s i a)
   \<and> matched (timeout_rules C s i a)
       = (matched (secret_rules C s i a) \<or> timeout_only C s i a)
   \<and> (timeout_only C s i a \<longrightarrow>
         \<not> matched (secret_rules C s i a)
         \<and> secret C (Val s) i a = Inl (Unauthorized (secret_msg s i a)))"
  by (cases "a = Val (appId C)"; cases "i = a"; cases "i = Val (appId C)";
      cases "s = ''remote''"; cases "s = ''internal''";
      simp add: timeout_def timeout_spec_def timeout_rules_def secret_rules_def resolved_def
        matched_def timeout_only_def secret_def startsWith_def
        split: option.split)

theorem timeout_five_rules_witness:
  "fst (secret_rules cfg ''remote'' (Val ''peer'') (Val ''app'') ! 3)
   \<and> fst (timeout_rules cfg ''remote'' (Val ''peer'') (Val ''app'') ! 3)
   \<and> timeout cfg (Val ''remote'') (Val ''peer'') (Val ''app'') = Inr ''10m''
   \<and> timeout_only cfg ''internal'' (Val ''peer'') (Val ''app'')
   \<and> secret cfg (Val ''internal'') (Val ''peer'') (Val ''app'')
       = Inl (Unauthorized (secret_msg ''internal'' (Val ''peer'') (Val ''app'')))"
proof -
  have o: "timeout_only cfg ''internal'' (Val ''peer'') (Val ''app'')"
    by (simp add: timeout_only_def cfg_def)
  from timeout_five_rules [of cfg "''remote''" "Val ''peer''" "Val ''app''"]
  have "timeout cfg (Val ''remote'') (Val ''peer'') (Val ''app'')
          = timeout_spec cfg ''remote'' (Val ''peer'') (Val ''app'')"
    and l: "list_all2 (\<lambda>p q. fst p \<longrightarrow> fst q) (secret_rules cfg ''remote'' (Val ''peer'') (Val ''app''))
              (timeout_rules cfg ''remote'' (Val ''peer'') (Val ''app''))"
    by simp_all
  then have t: "timeout cfg (Val ''remote'') (Val ''peer'') (Val ''app'') = Inr ''10m''"
    by (simp add: timeout_spec_def timeout_rules_def resolved_def cfg_def startsWith_def)
  have s3: "fst (secret_rules cfg ''remote'' (Val ''peer'') (Val ''app'') ! 3)"
    by (simp add: secret_rules_def cfg_def)
  from l s3 have t3: "fst (timeout_rules cfg ''remote'' (Val ''peer'') (Val ''app'') ! 3)"
    by (simp add: list_all2_conv_all_nth secret_rules_def)
  from timeout_five_rules [of cfg "''internal''" "Val ''peer''" "Val ''app''"] o
  have f: "secret cfg (Val ''internal'') (Val ''peer'') (Val ''app'')
       = Inl (Unauthorized (secret_msg ''internal'' (Val ''peer'') (Val ''app'')))"
    by blast
  from s3 t3 t o f show ?thesis by blast
qed

subsection \<open>The role of a returned context\<close>

text \<open>
  Claim C1. Every context returned by \<open>httpAuth\<close>, \<open>remoteAuth\<close> or \<open>eventAuth\<close> carries
  the permission it was called with, and the role of its \<open>auth\<close> is a key of the
  permission's role set with value \<open>true\<close> (looked up as the source does,
  \<^verbatim>\<open>roles[role] === true\<close>), or it is the string \<open>Application\<close>.
\<close>

theorem context_role_permitted:
  "(httpAuth L C now hreq perm = Inr ctx \<longrightarrow>
      permission ctx = perm \<and>
      (allows perm (to_string (role (auth ctx))) \<or> role (auth ctx) = Val ''Application''))
   \<and> (remoteAuth L C now rreq perm = Inr ctx \<longrightarrow>
      permission ctx = perm \<and>
      (allows perm (to_string (role (auth ctx))) \<or> role (auth ctx) = Val ''Application''))
   \<and> (eventAuth C now ereq perm = Inr ctx \<longrightarrow>
      permission ctx = perm \<and>
      (allows perm (to_string (role (auth ctx))) \<or> role (auth ctx) = Val ''Application''))"
proof (intro conjI impI)
  assume h: "httpAuth L C now hreq perm = Inr ctx"
  let ?v = "verify L C now (requestId hreq) (http_token hreq) perm (sourceIp hreq)"
  have ok: "permission ctx = perm \<and>
      (allows perm (to_string (role (auth ctx))) \<or> role (auth ctx) = Val ''Application'')"
  proof (cases ?v)
    case (Inl e)
    with h show ?thesis
      unfolding httpAuth_def Let_def public_auth_def
      by (auto simp: to_string_def split: if_splits)
  next
    case (Inr vctx)
    from verify_Inr[OF Inr] have v: "permission vctx = perm"
      "role (auth vctx) = Val ''Application'' \<or> allows perm (to_string (role (auth vctx)))"
      by (auto simp: verified_auth_def)
    have r: "role (fst (renew L C now (auth vctx))) = role (auth vctx)"
      by (rule renew_role)
    from h Inr v r show ?thesis
      unfolding httpAuth_def Let_def public_auth_def
      by (auto simp: to_string_def split: if_splits prod.splits option.splits)
  qed
  from ok show "permission ctx = perm" by simp
  from ok show "allows perm (to_string (role (auth ctx))) \<or> role (auth ctx) = Val ''Application''"
    by simp
next
  assume h: "remoteAuth L C now rreq perm = Inr ctx"
  then have "verify L C now (requestId rreq) (req_token rreq) perm Null = Inr ctx"
    unfolding remoteAuth_def by (simp split: if_splits sum.splits)
  from verify_Inr[OF this] have v: "permission ctx = perm"
      "role (auth ctx) = Val ''Application'' \<or> allows perm (to_string (role (auth ctx)))"
    by (auto simp: verified_auth_def)
  from v show "permission ctx = perm" by simp
  from v show "allows perm (to_string (role (auth ctx))) \<or> role (auth ctx) = Val ''Application''"
    by blast
next
  assume h: "eventAuth C now ereq perm = Inr ctx"
  then have ok: "permission ctx = perm \<and> allows perm (to_string (role (auth ctx)))"
    unfolding eventAuth_def by (auto simp: to_string_def split: if_splits)
  from ok show "permission ctx = perm" by simp
  from ok show "allows perm (to_string (role (auth ctx))) \<or> role (auth ctx) = Val ''Application''"
    by simp
qed

lemma run_http_user:
  "httpAuth (table_lib tokens) cfg 1000000 (http_req (Val ''Bearer tok-user'') (Val ''127.0.0.1''))
       (perm_of [(''Admin'', True)])
     = Inr \<lparr> ctx_requestId = ''r1'', permission = perm_of [(''Admin'', True)],
             auth = verified_auth (user_claims 0 0 3600) (Val ''tok-user'') \<rparr>"
  by (simp add: httpAuth_def http_token_def http_req_def renew_def run_defs)

lemma run_remote_peer:
  "remoteAuth (table_lib tokens) cfg 1000000 \<lparr>requestId = ''r1'', req_token = Val ''tok-peer''\<rparr>
       (perm_of [(''Internal'', True), (''Remote'', True)])
     = Inr \<lparr> ctx_requestId = ''r1'', permission = perm_of [(''Internal'', True), (''Remote'', True)],
             auth = verified_auth (claims ''remote'' ''peer'' ''app'' ''Internal'' 900 900 1500)
                      (Val ''tok-peer'') \<rparr>"
  by (simp add: remoteAuth_def run_defs)


theorem context_role_permitted_witness:
  "(httpAuth (table_lib tokens) cfg 1000000
        (http_req (Val ''Bearer tok-user'') (Val ''127.0.0.1'')) (perm_of [(''Admin'', True)])
      = Inr \<lparr> ctx_requestId = ''r1'', permission = perm_of [(''Admin'', True)],
              auth = verified_auth (user_claims 0 0 3600) (Val ''tok-user'') \<rparr>
    \<and> allows (perm_of [(''Admin'', True)])
         (to_string (role (verified_auth (user_claims 0 0 3600) (Val ''tok-user'')))))
   \<and> (remoteAuth (table_lib tokens) cfg 1000000 \<lparr>requestId = ''r1'', req_token = Val ''tok-peer''\<rparr>
        (perm_of [(''Internal'', True), (''Remote'', True)])
      = Inr \<lparr> ctx_requestId = ''r1'',
              permission = perm_of [(''Internal'', True), (''Remote'', True)],
              auth = verified_auth (claims ''remote'' ''peer'' ''app'' ''Internal'' 900 900 1500)
                       (Val ''tok-peer'') \<rparr>
    \<and> allows (perm_of [(''Internal'', True), (''Remote'', True)])
         (to_string (role (verified_auth (claims ''remote'' ''peer'' ''app'' ''Internal'' 900 900 1500)
                            (Val ''tok-peer'')))))
   \<and> (eventAuth cfg 1000000 \<lparr>requestId = ''r1''\<rparr> (perm_of [(''Internal'', True)])
      = Inr \<lparr> ctx_requestId = ''r1'', permission = perm_of [(''Internal'', True)],
              auth = \<lparr> tokenId = Val ''r1'', audience = Val ''app'',
                       subject = Val ''event'', userId = Null, role = Val ''Internal'',
                       scope = Undefined, serial = None, email = Undefined,
                       ipAddress = Undefined,
                       issuer = Val ''app'', remote = False, name = Undefined,
                       issued = Some (new_Date (Some 1000000)),
                       expires = Some (new_Date (Some (1000000 + 60000))),
                       token = Null, renewed = False \<rparr> \<rparr>
    \<and> allows (perm_of [(''Internal'', True)]) (to_string (Val ''Internal'')))"
proof (intro conjI)
  let ?L = "table_lib tokens"
  let ?ca = "\<lparr> ctx_requestId = ''r1'', permission = perm_of [(''Admin'', True)],
              auth = verified_auth (user_claims 0 0 3600) (Val ''tok-user'') \<rparr>"
  let ?cb = "\<lparr> ctx_requestId = ''r1'',
              permission = perm_of [(''Internal'', True), (''Remote'', True)],
              auth = verified_auth (claims ''remote'' ''peer'' ''app'' ''Internal'' 900 900 1500)
                       (Val ''tok-peer'') \<rparr>"
  show a: "httpAuth ?L cfg 1000000 (http_req (Val ''Bearer tok-user'') (Val ''127.0.0.1''))
        (perm_of [(''Admin'', True)]) = Inr ?ca"
    by (rule run_http_user)
  show b: "remoteAuth ?L cfg 1000000 \<lparr>requestId = ''r1'', req_token = Val ''tok-peer''\<rparr>
        (perm_of [(''Internal'', True), (''Remote'', True)]) = Inr ?cb"
    by (rule run_remote_peer)
  from context_role_permitted [where L = ?L and C = cfg and now = 1000000
      and hreq = "http_req (Val ''Bearer tok-user'') (Val ''127.0.0.1'')"
      and perm = "perm_of [(''Admin'', True)]" and ctx = ?ca, THEN conjunct1, THEN mp, OF a]
  show "allows (perm_of [(''Admin'', True)])
         (to_string (role (verified_auth (user_claims 0 0 3600) (Val ''tok-user''))))"
    by (simp add: verified_auth_def user_claims_def claims_def)
  from context_role_permitted [where L = ?L and C = cfg and now = 1000000
      and rreq = "\<lparr>requestId = ''r1'', req_token = Val ''tok-peer''\<rparr>"
      and perm = "perm_of [(''Internal'', True), (''Remote'', True)]" and ctx = ?cb,
      THEN conjunct2, THEN conjunct1, THEN mp, OF b]
  show "allows (perm_of [(''Internal'', True), (''Remote'', True)])
         (to_string (role (verified_auth (claims ''remote'' ''peer'' ''app'' ''Internal'' 900 900 1500)
                            (Val ''tok-peer''))))"
    by (simp add: verified_auth_def claims_def)
  let ?cc = "\<lparr> ctx_requestId = ''r1'', permission = perm_of [(''Internal'', True)],
              auth = \<lparr> tokenId = Val ''r1'', audience = Val ''app'',
                       subject = Val ''event'', userId = Null, role = Val ''Internal'',
                       scope = Undefined, serial = None, email = Undefined,
                       ipAddress = Undefined,
                       issuer = Val ''app'', remote = False, name = Undefined,
                       issued = Some (new_Date (Some 1000000)),
                       expires = Some (new_Date (Some (1000000 + 60000))),
                       token = Null, renewed = False \<rparr> \<rparr>"
  show c: "eventAuth cfg 1000000 \<lparr>requestId = ''r1''\<rparr> (perm_of [(''Internal'', True)]) = Inr ?cc"
    by (simp add: eventAuth_def perm_of_def allows_def cfg_def)
  from context_role_permitted [where C = cfg and now = 1000000
      and ereq = "\<lparr>requestId = ''r1''\<rparr>" and perm = "perm_of [(''Internal'', True)]" and ctx = ?cc,
      THEN conjunct2, THEN conjunct2, THEN mp, OF c]
  show "allows (perm_of [(''Internal'', True)]) (to_string (Val ''Internal''))"
    by simp
qed

subsection \<open>The gates of remoteAuth\<close>

text \<open>
  Claim C4. \<open>remoteAuth\<close> throws \<open>Forbidden\<close> whenever the permission allows neither
  \<open>Remote\<close> nor \<open>Internal\<close>, whatever the token is; and past that gate, when the token
  verifies but its issuer differs from its audience and the permission does not allow
  \<open>Remote\<close>, the context is flagged remote and \<open>remoteAuth\<close> throws \<open>Unauthorized\<close>.
\<close>

theorem remoteAuth_gates:
  "(\<not> allows perm ''Remote'' \<and> \<not> allows perm ''Internal'' \<longrightarrow>
      remoteAuth L C now req perm =
        Inl (Forbidden (''Remote requests not allowed for method ['' @ method_name perm @ '']'')))
   \<and> (allows perm ''Internal'' \<and> \<not> allows perm ''Remote''
        \<and> verify L C now (requestId req) (req_token req) perm Null = Inr ctx
        \<and> issuer (auth ctx) \<noteq> audience (auth ctx) \<longrightarrow>
      remote (auth ctx) \<and>
      remoteAuth L C now req perm =
        Inl (Unauthorized (''Internal request allowed only for method ['' @ method_name perm @ '']'')))"
proof (intro conjI impI)
  assume "\<not> allows perm ''Remote'' \<and> \<not> allows perm ''Internal''"
  then show "remoteAuth L C now req perm =
        Inl (Forbidden (''Remote requests not allowed for method ['' @ method_name perm @ '']''))"
    by (simp add: remoteAuth_def)
next
  assume a: "allows perm ''Internal'' \<and> \<not> allows perm ''Remote''
        \<and> verify L C now (requestId req) (req_token req) perm Null = Inr ctx
        \<and> issuer (auth ctx) \<noteq> audience (auth ctx)"
  then have v: "verify L C now (requestId req) (req_token req) perm Null = Inr ctx" by simp
  from verify_Inr[OF v] a show r: "remote (auth ctx)"
    by (auto simp: verified_auth_def)
  from a r show "remoteAuth L C now req perm =
        Inl (Unauthorized (''Internal request allowed only for method ['' @ method_name perm @ '']''))"
    by (simp add: remoteAuth_def)
qed

lemma run_verify_peer:
  "verify (table_lib tokens) cfg 1000000 ''r1'' (Val ''tok-peer'') (perm_of [(''Internal'', True)]) Null
     = Inr \<lparr> ctx_requestId = ''r1'', permission = perm_of [(''Internal'', True)],
             auth = verified_auth (claims ''remote'' ''peer'' ''app'' ''Internal'' 900 900 1500)
                      (Val ''tok-peer'') \<rparr>"
  by (simp add: run_defs)

theorem remoteAuth_gates_witness:
  "remoteAuth (table_lib tokens) cfg 1000000 \<lparr>requestId = ''r1'', req_token = Val ''tok-peer''\<rparr>
       (perm_of [(''Public'', True)])
     = Inl (Forbidden ''Remote requests not allowed for method [Api.method]'')
   \<and> remoteAuth (table_lib tokens) cfg 1000000 \<lparr>requestId = ''r1'', req_token = Val ''tok-peer''\<rparr>
       (perm_of [(''Internal'', True)])
     = Inl (Unauthorized ''Internal request allowed only for method [Api.method]'')"
proof (intro conjI)
  let ?req = "\<lparr>requestId = ''r1'', req_token = Val ''tok-peer''\<rparr>"
  have n: "\<not> allows (perm_of [(''Public'', True)]) ''Remote''
            \<and> \<not> allows (perm_of [(''Public'', True)]) ''Internal''"
    by (simp add: allows_def perm_of_def)
  from remoteAuth_gates [where perm = "perm_of [(''Public'', True)]" and L = "table_lib tokens"
      and C = cfg and now = 1000000 and req = ?req, THEN conjunct1, THEN mp, OF n]
  show "remoteAuth (table_lib tokens) cfg 1000000 ?req (perm_of [(''Public'', True)])
     = Inl (Forbidden ''Remote requests not allowed for method [Api.method]'')"
    by (simp add: perm_of_def)
  let ?ctx = "\<lparr> ctx_requestId = ''r1'', permission = perm_of [(''Internal'', True)],
             auth = verified_auth (claims ''remote'' ''peer'' ''app'' ''Internal'' 900 900 1500)
                      (Val ''tok-peer'') \<rparr>"
  have h: "allows (perm_of [(''Internal'', True)]) ''Internal''
        \<and> \<not> allows (perm_of [(''Internal'', True)]) ''Remote''
        \<and> verify (table_lib tokens) cfg 1000000 (requestId ?req) (req_token ?req)
              (perm_of [(''Internal'', True)]) Null = Inr ?ctx
        \<and> issuer (auth ?ctx) \<noteq> audience (auth ?ctx)"
    using run_verify_peer by (simp add: allows_def perm_of_def verified_auth_def claims_def)
  from remoteAuth_gates [where perm = "perm_of [(''Internal'', True)]" and L = "table_lib tokens"
      and C = cfg and now = 1000000 and req = ?req and ctx = ?ctx, THEN conjunct2, THEN mp, OF h]
  show "remoteAuth (table_lib tokens) cfg 1000000 ?req (perm_of [(''Internal'', True)])
     = Inl (Unauthorized ''Internal request allowed only for method [Api.method]'')"
    by (simp add: perm_of_def)
qed

subsection \<open>Expired tokens\<close>

text \<open>
  Claim C3, as stated, is false: \<open>tok-forged\<close> expired at 3600 s, the clock reads
  5000 s, its signature is not valid for the resolved (HTTP) secret; the library
  reports the signature before it looks at \<^verbatim>\<open>exp\<close>, and \<open>verify\<close> throws \<open>BadRequest\<close>.
\<close>

theorem expired_forged_bad_request:
  "table_decode tokens (Val ''tok-forged'') = Some (user_claims 0 0 3600)
   \<and> secret cfg (Val ''user:internal'') (Val ''app'') (Val ''app'') = Inr ''http-key''
   \<and> table_verify tokens (Val ''tok-forged'') ''http-key'' 5000000 = Inl ''invalid signature''
   \<and> verify (table_lib tokens) cfg 5000000 ''r1'' (Val ''tok-forged'')
        (perm_of [(''Admin'', True)]) Null
       = Inl (BadRequest ''Token: invalid signature'')"
  by (simp add: run_defs)

text \<open>
  Claim C3, amended. For every token that decodes and whose secret resolves: when the
  library's verification with that secret throws \<open>jwt expired\<close> and \<^verbatim>\<open>exp * 1000\<close> is a
  valid time value, \<open>verify\<close> fails with \<open>Unauthorized\<close>, the expiry time and the
  current time in the message; when it throws any other error, \<open>verify\<close> fails with
  \<open>BadRequest\<close> carrying that error's message, whatever \<^verbatim>\<open>exp\<close> is. With the table
  library, which like \<^verbatim>\<open>jsonwebtoken\<close> checks the signature before \<^verbatim>\<open>exp\<close>, every listed
  token signed with another key than the resolved secret fails with
  \<open>BadRequest\<close> (\<open>Token: invalid signature\<close>), whether its \<^verbatim>\<open>exp\<close> is in the past or not.
\<close>

theorem expired_token_unauthorized:
  "(JWT_decode L (strip_bearer tok) = Some j
      \<and> secret C (sub j) (iss j) (aud j) = Inr k
      \<and> JWT_verify L (strip_bearer tok) k now = Inl ''jwt expired''
      \<and> TimeClip (num_times (to_number (jwt_exp j)) 1000) = Some t
     \<longrightarrow> verify L C now rid tok perm ip =
           Inl (Unauthorized (''Token: expired ['' @ iso_string L t @ ''] < [''
                                @ iso_string L now @ '']'')))
   \<and> (JWT_decode L (strip_bearer tok) = Some j
      \<and> secret C (sub j) (iss j) (aud j) = Inr k
      \<and> JWT_verify L (strip_bearer tok) k now = Inl m \<and> m \<noteq> ''jwt expired''
     \<longrightarrow> verify L C now rid tok perm ip = Inl (BadRequest (''Token: '' @ m)))
   \<and> (strip_bearer tok = Val n \<and> n \<noteq> [] \<and> map_of T n = Some (k', j)
      \<and> secret C (sub j) (iss j) (aud j) = Inr k \<and> k' \<noteq> k
     \<longrightarrow> verify (table_lib T) C now rid tok perm ip
           = Inl (BadRequest ''Token: invalid signature''))"
proof (intro conjI impI)
  assume "JWT_decode L (strip_bearer tok) = Some j
      \<and> secret C (sub j) (iss j) (aud j) = Inr k
      \<and> JWT_verify L (strip_bearer tok) k now = Inl ''jwt expired''
      \<and> TimeClip (num_times (to_number (jwt_exp j)) 1000) = Some t"
  then show "verify L C now rid tok perm ip =
           Inl (Unauthorized (''Token: expired ['' @ iso_string L t @ ''] < [''
                                @ iso_string L now @ '']''))"
    by (simp add: verify_def verify_try_def verify_catch_def toISOString_def new_Date_def)
next
  assume "JWT_decode L (strip_bearer tok) = Some j
      \<and> secret C (sub j) (iss j) (aud j) = Inr k
      \<and> JWT_verify L (strip_bearer tok) k now = Inl m \<and> m \<noteq> ''jwt expired''"
  then show "verify L C now rid tok perm ip = Inl (BadRequest (''Token: '' @ m))"
    by (simp add: verify_def verify_try_def verify_catch_def)
next
  assume "strip_bearer tok = Val n \<and> n \<noteq> [] \<and> map_of T n = Some (k', j)
      \<and> secret C (sub j) (iss j) (aud j) = Inr k \<and> k' \<noteq> k"
  then show "verify (table_lib T) C now rid tok perm ip
           = Inl (BadRequest ''Token: invalid signature'')"
    by (simp add: verify_def verify_try_def verify_catch_def table_lib_def table_decode_def
          table_verify_def truthy_def to_string_def)
qed

theorem expired_token_unauthorized_witness:
  "verify (table_lib tokens) cfg 5000000 ''r1'' (Val ''Bearer tok-user'')
        (perm_of [(''Admin'', True)]) Null
     = Inl (Unauthorized ''Token: expired [1970-01-01T01:00:00.000Z] < [1970-01-01T01:23:20.000Z]'')
   \<and> verify (table_lib tokens) cfg 5000000 ''r1'' (Val ''Bearer tok-forged'')
        (perm_of [(''Admin'', True)]) Null
     = Inl (BadRequest ''Token: invalid signature'')"
proof (intro conjI)
  let ?L = "table_lib tokens"
  let ?j = "user_claims 0 0 3600"
  have 1: "JWT_decode ?L (strip_bearer (Val ''Bearer tok-user'')) = Some ?j
      \<and> secret cfg (sub ?j) (iss ?j) (aud ?j) = Inr ''http-key''
      \<and> JWT_verify ?L (strip_bearer (Val ''Bearer tok-user'')) ''http-key'' 5000000
            = Inl ''jwt expired''
      \<and> TimeClip (num_times (to_number (jwt_exp ?j)) 1000) = Some 3600000"
    by (simp add: run_defs)
  from expired_token_unauthorized [where L = ?L and C = cfg and now = 5000000 and j = ?j
      and tok = "Val ''Bearer tok-user''" and k = "''http-key''" and t = 3600000,
      THEN conjunct1, THEN mp, OF 1]
  show "verify ?L cfg 5000000 ''r1'' (Val ''Bearer tok-user'') (perm_of [(''Admin'', True)]) Null
     = Inl (Unauthorized ''Token: expired [1970-01-01T01:00:00.000Z] < [1970-01-01T01:23:20.000Z]'')"
    by (simp add: table_lib_def table_iso_def)
  have 2: "JWT_decode ?L (strip_bearer (Val ''Bearer tok-forged'')) = Some ?j
      \<and> secret cfg (sub ?j) (iss ?j) (aud ?j) = Inr ''http-key''
      \<and> JWT_verify ?L (strip_bearer (Val ''Bearer tok-forged'')) ''http-key'' 5000000
            = Inl ''invalid signature''
      \<and> ''invalid signature'' \<noteq> ''jwt expired''"
    by (simp add: run_defs)
  have a: "verify ?L cfg 5000000 ''r1'' (Val ''Bearer tok-forged'') (perm_of [(''Admin'', True)]) Null
     = Inl (BadRequest (''Token: '' @ ''invalid signature''))"
    by (rule expired_token_unauthorized [where L = ?L and C = cfg and now = 5000000 and j = ?j
      and tok = "Val ''Bearer tok-forged''" and k = "''http-key''" and m = "''invalid signature''",
      THEN conjunct2, THEN conjunct1, THEN mp, OF 2])
  have 3: "strip_bearer (Val ''Bearer tok-forged'') = Val ''tok-forged'' \<and> ''tok-forged'' \<noteq> []
      \<and> map_of tokens ''tok-forged'' = Some (''other-key'', ?j)
      \<and> secret cfg (sub ?j) (iss ?j) (aud ?j) = Inr ''http-key'' \<and> ''other-key'' \<noteq> ''http-key''"
    by (simp add: run_defs)
  have b: "verify ?L cfg 5000000 ''r1'' (Val ''Bearer tok-forged'') (perm_of [(''Admin'', True)]) Null
     = Inl (BadRequest ''Token: invalid signature'')"
    by (rule expired_token_unauthorized [where T = tokens and C = cfg and j = ?j
      and tok = "Val ''Bearer tok-forged''" and k = "''http-key''" and k' = "''other-key''"
      and n = "''tok-forged''", THEN conjunct2, THEN conjunct2, THEN mp, OF 3])
  from a b show "verify ?L cfg 5000000 ''r1'' (Val ''Bearer tok-forged'') (perm_of [(''Admin'', True)]) Null
     = Inl (BadRequest ''Token: invalid signature'')"
    by simp
qed

subsection \<open>Debug permission\<close>

text \<open>
  Claim C5. When the permission allows \<open>Debug\<close>, \<open>httpAuth\<close> throws \<open>Forbidden\<close> for every
  source address other than \<open>127.0.0.1\<close> and \<open>::1\<close>. From a loopback address with a
  token present it runs \<open>verify\<close> and \<open>renew\<close> and returns that context; when \<open>verify\<close>
  fails the error is swallowed and the synthetic debug context (subject \<open>user:debug\<close>,
  role \<open>Debug\<close>) is returned.
\<close>

theorem debug_permission:
  assumes "allows perm ''Debug''"
  shows "(sourceIp req \<noteq> Val ''127.0.0.1'' \<and> sourceIp req \<noteq> Val ''::1'' \<longrightarrow>
            httpAuth L C now req perm = Inl (Forbidden ''Debug role only valid for localhost''))
     \<and> ((sourceIp req = Val ''127.0.0.1'' \<or> sourceIp req = Val ''::1'')
          \<and> truthy (http_token req) \<longrightarrow>
          httpAuth L C now req perm =
            (case verify L C now (requestId req) (http_token req) perm (sourceIp req) of
               Inr ctx \<Rightarrow> Inr (ctx\<lparr>auth := fst (renew L C now (auth ctx))\<rparr>)
             | Inl e \<Rightarrow>
                 Inr \<lparr> ctx_requestId = requestId req, permission = perm,
                       auth = (public_auth C now (requestId req) (http_token req))
                                \<lparr>subject := Val ''user:debug'', role := Val ''Debug''\<rparr> \<rparr>))"
  using assms unfolding httpAuth_def Let_def
  by (auto split: sum.split)

theorem debug_permission_witness:
  "httpAuth (table_lib tokens) cfg 1000000 (http_req (Val ''Bearer tok-forged'') (Val ''10.0.0.5''))
       (perm_of [(''Debug'', True), (''Admin'', True)])
     = Inl (Forbidden ''Debug role only valid for localhost'')
   \<and> httpAuth (table_lib tokens) cfg 1000000 (http_req (Val ''Bearer tok-forged'') (Val ''127.0.0.1''))
       (perm_of [(''Debug'', True), (''Admin'', True)])
     = Inr \<lparr> ctx_requestId = ''r1'', permission = perm_of [(''Debug'', True), (''Admin'', True)],
             auth = (public_auth cfg 1000000 ''r1'' (Val ''Bearer tok-forged''))
                      \<lparr>subject := Val ''user:debug'', role := Val ''Debug''\<rparr> \<rparr>
   \<and> httpAuth (table_lib tokens) cfg 1000000 (http_req (Val ''Bearer tok-user'') (Val ''127.0.0.1''))
       (perm_of [(''Debug'', True), (''Admin'', True)])
     = Inr \<lparr> ctx_requestId = ''r1'', permission = perm_of [(''Debug'', True), (''Admin'', True)],
             auth = verified_auth (user_claims 0 0 3600) (Val ''tok-user'') \<rparr>"
proof (intro conjI)
  let ?L = "table_lib tokens"
  let ?p = "perm_of [(''Debug'', True), (''Admin'', True)]"
  have d: "allows ?p ''Debug''" by (simp add: allows_def perm_of_def)
  have far: "sourceIp (http_req (Val ''Bearer tok-forged'') (Val ''10.0.0.5'')) \<noteq> Val ''127.0.0.1''
        \<and> sourceIp (http_req (Val ''Bearer tok-forged'') (Val ''10.0.0.5'')) \<noteq> Val ''::1''"
    by (simp add: http_req_def)
  from debug_permission [OF d, where req = "http_req (Val ''Bearer tok-forged'') (Val ''10.0.0.5'')",
      THEN conjunct1, THEN mp, OF far]
  show "httpAuth ?L cfg 1000000 (http_req (Val ''Bearer tok-forged'') (Val ''10.0.0.5'')) ?p
     = Inl (Forbidden ''Debug role only valid for localhost'')" .
  let ?rf = "http_req (Val ''Bearer tok-forged'') (Val ''127.0.0.1'')"
  let ?ru = "http_req (Val ''Bearer tok-user'') (Val ''127.0.0.1'')"
  have rq: "\<And>t ip. requestId (http_req t ip) = ''r1''" by (simp add: http_req_def)
  have sip: "\<And>t ip. sourceIp (http_req t ip) = ip" by (simp add: http_req_def)
  have tkf: "http_token ?rf = Val ''Bearer tok-forged''"
    by (simp add: http_req_def http_token_def js_or_def js_and_def truthy_def)
  have tku: "http_token ?ru = Val ''Bearer tok-user''"
    by (simp add: http_req_def http_token_def js_or_def js_and_def truthy_def)
  have bad: "verify ?L cfg 1000000 ''r1'' (Val ''Bearer tok-forged'') ?p (Val ''127.0.0.1'')
      = Inl (BadRequest ''Token: invalid signature'')"
    by (simp add: run_defs)
  have good: "verify ?L cfg 1000000 ''r1'' (Val ''Bearer tok-user'') ?p (Val ''127.0.0.1'')
      = Inr \<lparr> ctx_requestId = ''r1'', permission = ?p,
              auth = verified_auth (user_claims 0 0 3600) (Val ''tok-user'') \<rparr>"
    by (simp add: run_defs)
  have keep: "fst (renew ?L cfg 1000000 (verified_auth (user_claims 0 0 3600) (Val ''tok-user'')))
      = verified_auth (user_claims 0 0 3600) (Val ''tok-user'')"
    by (simp add: renew_def run_defs)
  have hf: "(sourceIp ?rf = Val ''127.0.0.1'' \<or> sourceIp ?rf = Val ''::1'')
              \<and> truthy (http_token ?rf)"
    by (simp add: sip tkf truthy_def)
  have hu: "(sourceIp ?ru = Val ''127.0.0.1'' \<or> sourceIp ?ru = Val ''::1'')
              \<and> truthy (http_token ?ru)"
    by (simp add: sip tku truthy_def)
  from debug_permission [OF d, where req = ?rf and L = ?L and C = cfg and now = 1000000,
      THEN conjunct2, THEN mp, OF hf]
  show "httpAuth ?L cfg 1000000 ?rf ?p
     = Inr \<lparr> ctx_requestId = ''r1'', permission = ?p,
             auth = (public_auth cfg 1000000 ''r1'' (Val ''Bearer tok-forged''))
                      \<lparr>subject := Val ''user:debug'', role := Val ''Debug''\<rparr> \<rparr>"
    by (simp add: rq sip tkf bad)
  from debug_permission [OF d, where req = ?ru and L = ?L and C = cfg and now = 1000000,
      THEN conjunct2, THEN mp, OF hu]
  show "httpAuth ?L cfg 1000000 ?ru ?p
     = Inr \<lparr> ctx_requestId = ''r1'', permission = ?p,
             auth = verified_auth (user_claims 0 0 3600) (Val ''tok-user'') \<rparr>"
    by (simp add: rq sip tku good keep)
qed

subsection \<open>Unresolved secret inside verify\<close>

text \<open>
  Claim C9 says that a token which decodes but for which no secret rule matches fails
  as \<open>Unauthorized\<close>. The code does not do that: \<open>tok-event\<close> decodes to the subject
  \<open>event\<close>, \<open>secret\<close> throws \<open>Unauthorized\<close> for it, and since the call is inside the
  \<^verbatim>\<open>try\<close> block of \<open>verify\<close> the \<^verbatim>\<open>catch\<close> rethrows it as \<open>BadRequest\<close>.
\<close>

theorem unresolved_secret_bad_request:
  "table_decode tokens (Val ''tok-event'')
       = Some (claims ''event'' ''app'' ''app'' ''Internal'' 0 0 3600)
   \<and> secret cfg (Val ''event'') (Val ''app'') (Val ''app'')
       = Inl (Unauthorized
           ''Can not resolve token secret for subject: [event], issuer: [app], audience: [app]'')
   \<and> verify (table_lib tokens) cfg 1000000 ''r1'' (Val ''tok-event'')
        (perm_of [(''Internal'', True)]) Null
       = Inl (BadRequest
           ''Token: Can not resolve token secret for subject: [event], issuer: [app], audience: [app]'')"
  by (simp add: run_defs)

subsection \<open>The age check on the issuer\<close>

text \<open>
  Claim C10. For every token that passes the signature, audience, ip-address and role
  checks of \<open>verify\<close> and whose \<^verbatim>\<open>iss\<close> is a string that does not parse as a date, the
  age check never rejects: the computed expiry is \<^verbatim>\<open>NaN\<close> whatever the resolved timeout
  is, \<^verbatim>\<open>expiry < now\<close> is false, and \<open>verify\<close> returns the context as soon as the
  timeout resolves. Of the clock, only the library's own comparison with \<^verbatim>\<open>exp\<close>
  remains.
\<close>

theorem stale_check_never_rejects:
  assumes "verify_try L C now (strip_bearer tok) = Inr jwt"
    and "aud jwt = Val (appId C)"
    and "jwt_role jwt = Val ''Application'' \<or> \<not> truthy ip \<or> ipaddr jwt = ip"
    and "jwt_role jwt = Val ''Application'' \<or> allows perm (to_string (jwt_role jwt))"
    and "iss jwt = Val i"
    and "Date_parse L i = None"
  shows "num_add (getTime (new_Date_of L (iss jwt))) d = None
     \<and> \<not> num_lt (num_add (getTime (new_Date_of L (iss jwt))) d) (Some now)
     \<and> verify L C now rid tok perm ip =
         (case timeout C (sub jwt) (iss jwt) (aud jwt) of
            Inl e \<Rightarrow> Inl e
          | Inr tmo \<Rightarrow>
              (case MS L (Some tmo) of
                 Inl m \<Rightarrow> Inl (JsError m)
               | Inr d \<Rightarrow> Inr \<lparr> ctx_requestId = rid, permission = perm,
                                 auth = verified_auth jwt (strip_bearer tok) \<rparr>))"
proof -
  have nan: "\<And>d. num_add (getTime (new_Date_of L (iss jwt))) d = None"
    using assms(5,6) by (simp add: new_Date_of_def TimeClip_def num_add_def)
  have cmp: "\<And>d. \<not> num_lt (num_add (getTime (new_Date_of L (iss jwt))) d) (Some now)"
    by (simp add: nan num_lt_def)
  have "verify_checks L C now rid (strip_bearer tok) perm ip jwt =
         (case timeout C (sub jwt) (iss jwt) (aud jwt) of
            Inl e \<Rightarrow> Inl e
          | Inr tmo \<Rightarrow>
              (case MS L (Some tmo) of
                 Inl m \<Rightarrow> Inl (JsError m)
               | Inr d \<Rightarrow> Inr \<lparr> ctx_requestId = rid, permission = perm,
                                 auth = verified_auth jwt (strip_bearer tok) \<rparr>))"
    using assms(2,3,4) unfolding verify_checks_def Let_def
    by (auto simp: cmp split: sum.split)
  with assms(1) nan cmp show ?thesis by (simp add: verify_def)
qed

theorem stale_check_never_rejects_witness:
  "num_add (getTime (new_Date_of (table_lib tokens) (Val ''app''))) (Some 3600000) = None
   \<and> verify (table_lib tokens) cfg 1000000 ''r1'' (Val ''Bearer tok-user'')
        (perm_of [(''Admin'', True)]) (Val ''127.0.0.1'')
     = Inr \<lparr> ctx_requestId = ''r1'', permission = perm_of [(''Admin'', True)],
             auth = verified_auth (user_claims 0 0 3600) (Val ''tok-user'') \<rparr>"
proof -
  let ?L = "table_lib tokens"
  let ?j = "user_claims 0 0 3600"
  have 1: "verify_try ?L cfg 1000000 (strip_bearer (Val ''Bearer tok-user'')) = Inr ?j"
    by (simp add: run_defs)
  have 2: "aud ?j = Val (appId cfg)" by (simp add: run_defs)
  have 3: "jwt_role ?j = Val ''Application'' \<or> \<not> truthy (Val ''127.0.0.1'')
             \<or> ipaddr ?j = Val ''127.0.0.1''"
    by (simp add: run_defs)
  have 4: "jwt_role ?j = Val ''Application''
             \<or> allows (perm_of [(''Admin'', True)]) (to_string (jwt_role ?j))"
    by (simp add: run_defs)
  have 5: "iss ?j = Val ''app''" by (simp add: run_defs)
  have 6: "Date_parse ?L ''app'' = None" by (simp add: run_defs)
  from stale_check_never_rejects [OF 1 2 3 4 5 6, of "Some 3600000" "''r1''"]
  show ?thesis by (simp add: run_defs)
qed

subsection \<open>Issue, then verify\<close>

lemma table_lib_law:
  assumes d: "distinct (map fst T)"
    and ok: "\<forall>(t, k, j) \<in> set T. t \<noteq> [] \<and> strip_bearer (Val t) = Val t \<and> nbf j = Undefined
                \<and> (\<exists>e. jwt_exp j = Val e \<and> of_int \<lfloor>now' / 1000\<rfloor> < e)"
  shows "sign_verify_law (table_lib T) now now' tm"
  unfolding sign_verify_law_def
proof (intro allI impI)
  fix payload k opts tok
  assume "expiresIn opts = tm \<and> JWT_sign (table_lib T) payload k opts now = Inr tok"
  then have s: "JWT_sign (table_lib T) payload k opts now = Inr tok" by simp
  then have "\<exists>dur k' j.
      find (\<lambda>(t, k', j). k' = k \<and> j = stamped_claims payload opts now dur) T = Some (tok, k', j)"
    by (auto simp: table_lib_def table_sign_def split: sum.splits option.splits)
  then obtain dur k' j where
    e: "find (\<lambda>(t, k', j). k' = k \<and> j = stamped_claims payload opts now dur) T = Some (tok, k', j)"
    by blast
  then have m: "(tok, k', j) \<in> set T" and kj: "k' = k" "j = stamped_claims payload opts now dur"
    by (auto simp: find_Some_iff in_set_conv_nth)
  from d m have mo: "map_of T tok = Some (k, j)" unfolding kj(1) by (rule map_of_is_SomeI)
  from ok m have p: "tok \<noteq> []" "strip_bearer (Val tok) = Val tok" "nbf j = Undefined"
      "\<exists>e. jwt_exp j = Val e \<and> of_int \<lfloor>now' / 1000\<rfloor> < e"
    by auto
  from p(4) obtain ex where ex: "jwt_exp j = Val ex" "of_int \<lfloor>now' / 1000\<rfloor> < ex" by blast
  have dec: "JWT_decode (table_lib T) (Val tok) = Some j"
    by (simp add: table_lib_def table_decode_def mo)
  have ver: "JWT_verify (table_lib T) (Val tok) k now' = Inr j"
    using p(1,3) ex
    by (simp add: table_lib_def table_verify_def table_check_exp_def truthy_def to_string_def mo)
  have car: "carries j payload opts"
    by (simp add: kj(2) carries_def stamped_claims_def)
  from p(2) dec ver car
  show "strip_bearer (Val tok) = Val tok
          \<and> (\<exists>j. JWT_decode (table_lib T) (Val tok) = Some j
                 \<and> JWT_verify (table_lib T) (Val tok) k now' = Inr j
                 \<and> carries j payload opts)"
    by blast
qed

text \<open>
  Claim C2, as stated, is false for the first-issue timestamp: a request with the
  serial date 1500 ms is issued as \<open>tok-issued\<close> with \<^verbatim>\<open>ist\<close> = 1 (whole seconds), and
  \<open>verify\<close> returns the serial date 1000 ms.
\<close>

theorem roundtrip_serial_truncated:
  "issueToken (table_lib tokens) cfg 1000000 (issue_req 1500)
     = ((issue_req 1500)\<lparr>audience := Val ''app''\<rparr>, Inr ''tok-issued'')
   \<and> verify (table_lib tokens) cfg 1000000 ''r1'' (Val ''tok-issued'')
        (perm_of [(''Admin'', True)]) Null
     = Inr \<lparr> ctx_requestId = ''r1'', permission = perm_of [(''Admin'', True)],
             auth = verified_auth (user_claims 1 1000 4600) (Val ''tok-issued'') \<rparr>
   \<and> serial (verified_auth (user_claims 1 1000 4600) (Val ''tok-issued''))
       = Some (SerialDate (Date (Some 1000)))
   \<and> serial (issue_req 1500) = Some (SerialDate (Date (Some 1500)))"
  by (simp add: issue_defs run_defs)

text \<open>
  Claim C2, amended. Let the library keep its contract between signing and verifying
  for the timeout resolved for the request (what \<open>JWT_sign\<close> returns with that life
  does not start with \<open>Bearer\<close>, decodes, and verifies with the signing key at the
  clock of \<open>verify\<close>, to the claims that were signed, after the JSON round trip). Let
  \<open>issueToken\<close> return a token for a request whose audience is absent or this
  application's id; let the role of the request be present and true in the
  permission's role set, the ip address given to \<open>verify\<close> be absent or that of the
  request, and the age check on the application id not reject (the timeout resolved for
  the request has a length for which \<^verbatim>\<open>new Date(appId)\<close> plus that length is \<^verbatim>\<open>NaN\<close> or
  not before the clock). Then \<open>verify\<close> of the issued token returns a context whose
  token is the issued token, whose token id is that of the request (the generated id
  when the request has none), whose subject, user id, role, scope, email and ip
  address are those of the request, and whose first-issue date is the serial of the
  request in milliseconds (the clock when the request has none) rounded down to whole
  seconds; it is the epoch when the serial is an invalid date.
\<close>

theorem issue_verify_roundtrip:
  assumes law: "sign_verify_law L now now' tm"
    and issued: "issueToken L C now req = (req', Inr tok)"
    and own: "\<not> truthy (audience req) \<or> audience req = Val (appId C)"
    and rl: "allows perm (to_string (role req))"
    and ipa: "\<not> truthy ip \<or> ip = ipAddress req"
    and tmo: "timeout C (subject req) (Val (appId C)) (Val (appId C)) = Inr tm"
    and ms: "MS L (Some tm) = Inr d"
    and fresh: "\<not> num_lt (num_add (getTime (new_Date_of L (Val (appId C)))) d) (Some now')"
  shows "\<exists>ctx. verify L C now' rid (Val tok) perm ip = Inr ctx
     \<and> token (auth ctx) = Val tok
     \<and> tokenId (auth ctx) = js_or (tokenId req) (Val (uuid L))
     \<and> subject (auth ctx) = subject req
     \<and> userId (auth ctx) = userId req
     \<and> role (auth ctx) = role req
     \<and> scope (auth ctx) = scope req
     \<and> email (auth ctx) = email req
     \<and> ipAddress (auth ctx) = ipAddress req
     \<and> serial (auth ctx)
         = Some (SerialDate (new_Date (num_times (to_number (json_num
              (num_floor (num_over (serial_ms now (serial req)) 1000)))) 1000)))
     \<and> (serial_ms now (serial req) = None
          \<longrightarrow> serial (auth ctx) = Some (SerialDate (Date (Some 0))))"
proof -
  from issueToken_eq[OF issued]
  have r': "req' = req\<lparr>tokenId := js_or (tokenId req) (Val (uuid L)),
                      audience := js_or (audience req) (Val (appId C))\<rparr>" .
  from own have au: "audience req' = Val (appId C)"
    by (auto simp: r' js_or_def)
  have sub': "subject req' = subject req" by (simp add: r')
  from issueToken_Inr[OF issued] obtain k tm' where
    kt: "secret C (subject req') (Val (appId C)) (audience req') = Inr k"
        "timeout C (subject req') (Val (appId C)) (audience req') = Inr tm'"
        "JWT_sign L (issue_payload now req') k (issue_options C tm' req') now = Inr tok"
    by blast
  from kt(2) tmo have tm': "tm' = tm" by (simp add: au sub')
  have ex: "expiresIn (issue_options C tm' req') = tm" by (simp add: issue_options_def tm')
  from law ex kt(3) have plain: "strip_bearer (Val tok) = Val tok"
    unfolding sign_verify_law_def by blast
  from law ex kt(3) obtain j where
    dec: "JWT_decode L (Val tok) = Some j" and ver: "JWT_verify L (Val tok) k now' = Inr j"
    and car: "carries j (issue_payload now req') (issue_options C tm' req')"
    unfolding sign_verify_law_def by blast
  from car have c: "jti j = tokenId req'" "iss j = Val (appId C)" "aud j = Val (appId C)"
      "sub j = subject req"
      "ist j = json_num (num_floor (num_over (serial_ms now (serial req)) 1000))"
      "oid j = userId req" "jwt_email j = email req" "ipaddr j = ipAddress req"
      "jwt_role j = role req" "jwt_scope j = scope req"
    by (simp_all add: carries_def issue_payload_def issue_options_def au) (simp_all add: r')
  have t: "verify_try L C now' (Val tok) = Inr j"
    using dec kt(1) ver by (simp add: verify_try_def c au sub')
  have ch: "verify_checks L C now' rid (Val tok) perm ip j
      = Inr \<lparr> ctx_requestId = rid, permission = perm, auth = verified_auth j (Val tok) \<rparr>"
    using tmo ms fresh rl ipa
    unfolding verify_checks_def Let_def
    by (auto simp: c au sub')
  have v: "verify L C now' rid (Val tok) perm ip
           = Inr \<lparr> ctx_requestId = rid, permission = perm, auth = verified_auth j (Val tok) \<rparr>"
    by (simp add: verify_def plain t ch)
  have nan: "serial_ms now (serial req) = None
      \<longrightarrow> new_Date (num_times (to_number (json_num
              (num_floor (num_over (serial_ms now (serial req)) 1000)))) 1000) = Date (Some 0)"
    by (simp add: new_Date_def TimeClip_def num_over_def num_floor_def json_num_def
          to_number_def num_times_def)
  show ?thesis
    by (rule exI[of _ "\<lparr> ctx_requestId = rid, permission = perm, auth = verified_auth j (Val tok) \<rparr>"])
       (use nan in \<open>simp add: v verified_auth_def c r'\<close>)
qed

theorem issue_verify_roundtrip_witness:
  "map_sum id (\<lambda>c. (token (auth c), role (auth c), serial (auth c)))
       (verify (table_lib tokens) cfg 1000000 ''r1'' (Val ''tok-issued'')
          (perm_of [(''Admin'', True)]) Null)
     = Inr (Val ''tok-issued'', Val ''Admin'', Some (SerialDate (Date (Some 1000))))
   \<and> map_sum id (\<lambda>c. (token (auth c), role (auth c), serial (auth c)))
       (verify (table_lib tokens) cfg 1000000 ''r1'' (Val ''tok-nan'')
          (perm_of [(''Admin'', True)]) Null)
     = Inr (Val ''tok-nan'', Val ''Admin'', Some (SerialDate (Date (Some 0))))"
proof (intro conjI)
  let ?L = "table_lib tokens"
  let ?p = "perm_of [(''Admin'', True)]"
  have d: "distinct (map fst tokens)" by (simp add: tokens_def)
  have ok: "\<forall>(t, k, j) \<in> set tokens. t \<noteq> [] \<and> strip_bearer (Val t) = Val t \<and> nbf j = Undefined
                \<and> (\<exists>e. jwt_exp j = Val e \<and> of_int \<lfloor>1000000 / 1000\<rfloor> < e)"
    by (simp add: tokens_def claims_def user_claims_def strip_bearer_def startsWith_def)
  have law: "sign_verify_law ?L 1000000 1000000 ''1h''" using d ok by (rule table_lib_law)
  have rl: "\<And>x. allows ?p (to_string (role (issue_req x)))" by (simp add: issue_defs run_defs)
  have ipa: "\<And>r. \<not> truthy Null \<or> Null = ipAddress r" by (simp add: truthy_def)
  have ms: "MS ?L (Some ''1h'') = Inr (Some 3600000)" by (simp add: run_defs)
  have fresh: "\<not> num_lt (num_add (getTime (new_Date_of ?L (Val (appId cfg)))) (Some 3600000))
                   (Some 1000000)"
    by (simp add: run_defs)
  let ?r = "issue_req 1500"
  have issued: "issueToken ?L cfg 1000000 ?r = (?r\<lparr>audience := Val ''app''\<rparr>, Inr ''tok-issued'')"
    by (simp add: issue_defs run_defs)
  have own: "\<not> truthy (audience ?r) \<or> audience ?r = Val (appId cfg)"
    by (simp add: issue_defs run_defs)
  have tmo: "timeout cfg (subject ?r) (Val (appId cfg)) (Val (appId cfg)) = Inr ''1h''"
    by (simp add: issue_defs run_defs)
  from issue_verify_roundtrip [OF law issued own rl ipa tmo ms fresh, of "''r1''"]
  obtain ctx where c: "verify ?L cfg 1000000 ''r1'' (Val ''tok-issued'') ?p Null = Inr ctx"
      "token (auth ctx) = Val ''tok-issued''" "role (auth ctx) = role ?r"
      "serial (auth ctx) = Some (SerialDate (new_Date (num_times (to_number (json_num
              (num_floor (num_over (serial_ms 1000000 (serial ?r)) 1000)))) 1000)))"
    by blast
  show "map_sum id (\<lambda>c. (token (auth c), role (auth c), serial (auth c)))
       (verify ?L cfg 1000000 ''r1'' (Val ''tok-issued'') ?p Null)
     = Inr (Val ''tok-issued'', Val ''Admin'', Some (SerialDate (Date (Some 1000))))"
    by (simp add: c) (simp add: issue_defs run_defs)
  let ?n = "(issue_req 0)\<lparr>serial := Some (SerialDate (Date None))\<rparr>"
  have issued': "issueToken ?L cfg 1000000 ?n = (?n\<lparr>audience := Val ''app''\<rparr>, Inr ''tok-nan'')"
    by (simp add: issue_defs run_defs)
  have own': "\<not> truthy (audience ?n) \<or> audience ?n = Val (appId cfg)"
    by (simp add: issue_defs run_defs)
  have rl': "allows ?p (to_string (role ?n))" by (simp add: issue_defs run_defs)
  have tmo': "timeout cfg (subject ?n) (Val (appId cfg)) (Val (appId cfg)) = Inr ''1h''"
    by (simp add: issue_defs run_defs)
  have nan: "serial_ms 1000000 (serial ?n) = None" by (simp add: serial_ms_def)
  from issue_verify_roundtrip [OF law issued' own' rl' ipa tmo' ms fresh, of "''r1''"] nan
  obtain ctx' where c': "verify ?L cfg 1000000 ''r1'' (Val ''tok-nan'') ?p Null = Inr ctx'"
      "token (auth ctx') = Val ''tok-nan''" "role (auth ctx') = role ?n"
      "serial (auth ctx') = Some (SerialDate (Date (Some 0)))"
    by blast
  show "map_sum id (\<lambda>c. (token (auth c), role (auth c), serial (auth c)))
       (verify ?L cfg 1000000 ''r1'' (Val ''tok-nan'') ?p Null)
     = Inr (Val ''tok-nan'', Val ''Admin'', Some (SerialDate (Date (Some 0))))"
    by (simp add: c') (simp add: issue_defs)
qed

subsection \<open>Renewal\<close>

lemma stamped_exp_later:
  assumes "x - now \<le> T / 2" and "4000 \<le> T"
  shows "x < 1000 * stamped_exp now T"
proof -
  let ?n = "of_int \<lfloor>now / 1000\<rfloor> :: real"
  have 1: "now / 1000 < ?n + 1" by linarith
  have 2: "?n + T / 1000 < of_int \<lfloor>?n + T / 1000\<rfloor> + 1" by linarith
  from 1 2 assms show ?thesis unfolding stamped_exp_def by linarith
qed

lemma renew_noop_early:
  assumes "issuer a \<noteq> Val (appId C) \<or> \<not> configured (httpLifetime C)
      \<or> (subject a \<noteq> Val ''user:internal'' \<and> subject a \<noteq> Val ''user:external'')"
  shows "renew L C now a = (a\<lparr>renewed := False\<rparr>, None)"
  using assms unfolding renew_def Let_def by auto

lemma renew_noop_front_half:
  assumes "expires a = Some ex" and "MS L (httpTimeout C) = Inr t"
    and "num_gt (num_sub (getTime ex) (Some now)) (num_over t 2)"
  shows "renew L C now a = (a\<lparr>renewed := False\<rparr>, None)"
  using assms unfolding renew_def Let_def by simp

lemma renew_noop_too_old:
  assumes "expires a = Some ex" and "serial a = Some (SerialDate sd)"
    and "MS L (httpTimeout C) = Inr t" and "MS L (httpLifetime C) = Inr life"
    and "num_gt (num_sub (getTime ex) (getTime sd)) life"
  shows "renew L C now a = (a\<lparr>renewed := False\<rparr>, None)"
  using assms unfolding renew_def Let_def by simp

lemma renew_issues:
  assumes "issuer a = Val (appId C)" and "configured (httpLifetime C)"
    and "subject a = Val ''user:internal'' \<or> subject a = Val ''user:external''"
    and "expires a = Some ex" and "serial a = Some (SerialDate sd)"
    and "MS L (httpTimeout C) = Inr t" and "MS L (httpLifetime C) = Inr life"
    and "\<not> num_gt (num_sub (getTime ex) (Some now)) (num_over t 2)"
    and "\<not> num_gt (num_sub (getTime ex) (getTime sd)) life"
    and "issueToken L C now (a\<lparr>renewed := False\<rparr>) = (a', Inr tok)"
  shows "renew L C now a = (a'\<lparr>token := Val tok, renewed := True\<rparr>, None)"
  using assms unfolding renew_def Let_def by auto


lemma user_subject_resolves:
  assumes "s = ''user:internal'' \<or> s = ''user:external''"
  shows "(secret C (Val s) i a = Inr k) = (httpSecret C = Some k \<and> k \<noteq> [])"
    and "(timeout C (Val s) i a = Inr tm) = (httpTimeout C = Some tm \<and> tm \<noteq> [])"
proof -
  from assms have p: "startsWith s ''user:''" by (auto simp: startsWith_def)
  show "(secret C (Val s) i a = Inr k) = (httpSecret C = Some k \<and> k \<noteq> [])"
    by (cases "httpSecret C") (auto simp: secret_def p)
  show "(timeout C (Val s) i a = Inr tm) = (httpTimeout C = Some tm \<and> tm \<noteq> [])"
    by (cases "httpTimeout C") (auto simp: timeout_def p)
qed


text \<open>
  Claim C6, as stated, is false in its last part: with an HTTP timeout of one second, a
  token that expires at 1001 s is renewed at 1000.5 s (half a second before its expiry,
  which is half the timeout), and the token issued in its place expires at 1001 s too.
\<close>

theorem renew_same_expiry:
  "renew (table_lib tokens) (cfg\<lparr>httpTimeout := Some ''1s''\<rparr>) 1000500
       (verified_auth (user_claims 0 1000 1001) (Val ''tok-short''))
     = ((verified_auth (user_claims 0 1000 1001) (Val ''tok-short''))
          \<lparr>token := Val ''tok-short'', renewed := True\<rparr>, None)
   \<and> expires (verified_auth (user_claims 0 1000 1001) (Val ''tok-short''))
       = Some (Date (Some 1001000))
   \<and> table_decode tokens (Val ''tok-short'') = Some (user_claims 0 1000 1001)
   \<and> jwt_exp (user_claims 0 1000 1001) = Val 1001"
proof (intro conjI)
  let ?L = "table_lib tokens"
  let ?C = "cfg\<lparr>httpTimeout := Some ''1s''\<rparr>"
  let ?a = "verified_auth (user_claims 0 1000 1001) (Val ''tok-short'')"
  have 1: "issuer ?a = Val (appId ?C)" by (simp add: run_defs)
  have 2: "configured (httpLifetime ?C)" by (simp add: run_defs)
  have 3: "subject ?a = Val ''user:internal'' \<or> subject ?a = Val ''user:external''"
    by (simp add: run_defs)
  have 4: "expires ?a = Some (Date (Some 1001000))" by (simp add: run_defs)
  have 5: "serial ?a = Some (SerialDate (Date (Some 0)))" by (simp add: run_defs)
  have 6: "MS ?L (httpTimeout ?C) = Inr (Some 1000)" by (simp add: run_defs)
  have 7: "MS ?L (httpLifetime ?C) = Inr (Some 2592000000)" by (simp add: run_defs)
  have 8: "\<not> num_gt (num_sub (getTime (Date (Some 1001000))) (Some 1000500))
               (num_over (Some 1000) 2)"
    by (simp add: run_defs)
  have 9: "\<not> num_gt (num_sub (getTime (Date (Some 1001000))) (getTime (Date (Some 0))))
               (Some 2592000000)"
    by (simp add: run_defs)
  have 10: "issueToken ?L ?C 1000500 (?a\<lparr>renewed := False\<rparr>)
              = (?a\<lparr>renewed := False\<rparr>, Inr ''tok-short'')"
    by (simp add: issueToken_def issue_payload_def issue_options_def serial_ms_def
          stamped_claims_def stamped_exp_def run_defs)
  from renew_issues [OF 1 2 3 4 5 6 7 8 9 10]
  show "renew ?L ?C 1000500 ?a = (?a\<lparr>token := Val ''tok-short'', renewed := True\<rparr>, None)"
    by simp
  show "expires ?a = Some (Date (Some 1001000))" by (rule 4)
  show "table_decode tokens (Val ''tok-short'') = Some (user_claims 0 1000 1001)"
    by (simp add: run_defs)
  show "jwt_exp (user_claims 0 1000 1001) = Val 1001" by (simp add: run_defs)
qed

text \<open>
  Claim C6, amended. \<open>renew\<close> returns the \<open>auth\<close> unchanged but for \<open>renewed = false\<close>
  whenever the issuer is not this application, or no renewal lifetime is configured, or
  the subject is neither \<open>user:internal\<close> nor \<open>user:external\<close>, or the time until
  expiry exceeds half the HTTP timeout, or the expiry minus the original serial
  exceeds the maximum lifetime. Otherwise, when \<open>issueToken\<close> returns a token, it sets
  \<open>renewed = true\<close> and replaces the token by one signed with the HTTP secret for the
  same subject, role, scope and user id, with the HTTP timeout as its life; the expiry
  that the library stamps on it is strictly later than the old one when the HTTP
  timeout is at least four seconds.
\<close>

theorem renew_policy:
  "(issuer a \<noteq> Val (appId C) \<or> \<not> configured (httpLifetime C)
      \<or> (subject a \<noteq> Val ''user:internal'' \<and> subject a \<noteq> Val ''user:external'')
     \<longrightarrow> renew L C now a = (a\<lparr>renewed := False\<rparr>, None))
   \<and> (expires a = Some ex \<and> MS L (httpTimeout C) = Inr t
        \<and> num_gt (num_sub (getTime ex) (Some now)) (num_over t 2)
     \<longrightarrow> renew L C now a = (a\<lparr>renewed := False\<rparr>, None))
   \<and> (expires a = Some ex \<and> serial a = Some (SerialDate sd)
        \<and> MS L (httpTimeout C) = Inr t \<and> MS L (httpLifetime C) = Inr life
        \<and> num_gt (num_sub (getTime ex) (getTime sd)) life
     \<longrightarrow> renew L C now a = (a\<lparr>renewed := False\<rparr>, None))
   \<and> (issuer a = Val (appId C) \<and> configured (httpLifetime C)
        \<and> (subject a = Val ''user:internal'' \<or> subject a = Val ''user:external'')
        \<and> expires a = Some ex \<and> serial a = Some (SerialDate sd)
        \<and> MS L (httpTimeout C) = Inr t \<and> MS L (httpLifetime C) = Inr life
        \<and> \<not> num_gt (num_sub (getTime ex) (Some now)) (num_over t 2)
        \<and> \<not> num_gt (num_sub (getTime ex) (getTime sd)) life
        \<and> issueToken L C now (a\<lparr>renewed := False\<rparr>) = (a', Inr tok)
     \<longrightarrow> renew L C now a = (a'\<lparr>token := Val tok, renewed := True\<rparr>, None)
        \<and> subject a' = subject a \<and> role a' = role a \<and> scope a' = scope a
        \<and> userId a' = userId a
        \<and> (\<exists>k tm. httpSecret C = Some k \<and> httpTimeout C = Some tm
              \<and> JWT_sign L (issue_payload now a') k (issue_options C tm a') now = Inr tok
              \<and> opt_subject (issue_options C tm a') = subject a
              \<and> p_role (issue_payload now a') = role a
              \<and> p_scope (issue_payload now a') = scope a
              \<and> p_oid (issue_payload now a') = userId a
              \<and> MS L (Some (expiresIn (issue_options C tm a'))) = Inr t)
        \<and> (\<forall>x T. getTime ex = Some x \<and> t = Some T \<and> 4000 \<le> T
              \<longrightarrow> x < 1000 * stamped_exp now T))"
proof (intro conjI)
  show "issuer a \<noteq> Val (appId C) \<or> \<not> configured (httpLifetime C)
      \<or> (subject a \<noteq> Val ''user:internal'' \<and> subject a \<noteq> Val ''user:external'')
     \<longrightarrow> renew L C now a = (a\<lparr>renewed := False\<rparr>, None)"
    by (intro impI, rule renew_noop_early)
  show "expires a = Some ex \<and> MS L (httpTimeout C) = Inr t
        \<and> num_gt (num_sub (getTime ex) (Some now)) (num_over t 2)
     \<longrightarrow> renew L C now a = (a\<lparr>renewed := False\<rparr>, None)"
    by (intro impI, elim conjE, rule renew_noop_front_half)
  show "expires a = Some ex \<and> serial a = Some (SerialDate sd)
        \<and> MS L (httpTimeout C) = Inr t \<and> MS L (httpLifetime C) = Inr life
        \<and> num_gt (num_sub (getTime ex) (getTime sd)) life
     \<longrightarrow> renew L C now a = (a\<lparr>renewed := False\<rparr>, None)"
    by (intro impI, elim conjE, rule renew_noop_too_old)
  show "issuer a = Val (appId C) \<and> configured (httpLifetime C)
        \<and> (subject a = Val ''user:internal'' \<or> subject a = Val ''user:external'')
        \<and> expires a = Some ex \<and> serial a = Some (SerialDate sd)
        \<and> MS L (httpTimeout C) = Inr t \<and> MS L (httpLifetime C) = Inr life
        \<and> \<not> num_gt (num_sub (getTime ex) (Some now)) (num_over t 2)
        \<and> \<not> num_gt (num_sub (getTime ex) (getTime sd)) life
        \<and> issueToken L C now (a\<lparr>renewed := False\<rparr>) = (a', Inr tok)
     \<longrightarrow> renew L C now a = (a'\<lparr>token := Val tok, renewed := True\<rparr>, None)
        \<and> subject a' = subject a \<and> role a' = role a \<and> scope a' = scope a
        \<and> userId a' = userId a
        \<and> (\<exists>k tm. httpSecret C = Some k \<and> httpTimeout C = Some tm
              \<and> JWT_sign L (issue_payload now a') k (issue_options C tm a') now = Inr tok
              \<and> opt_subject (issue_options C tm a') = subject a
              \<and> p_role (issue_payload now a') = role a
              \<and> p_scope (issue_payload now a') = scope a
              \<and> p_oid (issue_payload now a') = userId a
              \<and> MS L (Some (expiresIn (issue_options C tm a'))) = Inr t)
        \<and> (\<forall>x T. getTime ex = Some x \<and> t = Some T \<and> 4000 \<le> T
              \<longrightarrow> x < 1000 * stamped_exp now T)"
  proof (intro impI, elim conjE)
    assume h: "issuer a = Val (appId C)" "configured (httpLifetime C)"
      "subject a = Val ''user:internal'' \<or> subject a = Val ''user:external''"
      "expires a = Some ex" "serial a = Some (SerialDate sd)"
      "MS L (httpTimeout C) = Inr t" "MS L (httpLifetime C) = Inr life"
      "\<not> num_gt (num_sub (getTime ex) (Some now)) (num_over t 2)"
      "\<not> num_gt (num_sub (getTime ex) (getTime sd)) life"
      "issueToken L C now (a\<lparr>renewed := False\<rparr>) = (a', Inr tok)"
    have r: "renew L C now a = (a'\<lparr>token := Val tok, renewed := True\<rparr>, None)"
      using h by (rule renew_issues)
    from issueToken_eq[OF h(10)]
    have a': "a' = a\<lparr>renewed := False,
                      tokenId := js_or (tokenId a) (Val (uuid L)),
                      audience := js_or (audience a) (Val (appId C))\<rparr>"
      by simp
    have same: "subject a' = subject a" "role a' = role a" "scope a' = scope a"
        "userId a' = userId a"
      by (simp_all add: a')
    from issueToken_Inr[OF h(10)] obtain k tm where
      kt: "secret C (subject a') (Val (appId C)) (audience a') = Inr k"
          "timeout C (subject a') (Val (appId C)) (audience a') = Inr tm"
          "JWT_sign L (issue_payload now a') k (issue_options C tm a') now = Inr tok"
      by blast
    from h(3) obtain s where s: "subject a = Val s" "s = ''user:internal'' \<or> s = ''user:external''"
      by blast
    have hk: "httpSecret C = Some k"
      using kt(1) user_subject_resolves(1)[OF s(2), of C "Val (appId C)" "audience a'" k]
      by (simp only: same s(1))
    have ht: "httpTimeout C = Some tm"
      using kt(2) user_subject_resolves(2)[OF s(2), of C "Val (appId C)" "audience a'" tm]
      by (simp only: same s(1))
    have o1: "opt_subject (issue_options C tm a') = subject a"
      by (simp add: issue_options_def same)
    have o2: "p_role (issue_payload now a') = role a"
      by (simp add: issue_payload_def same)
    have o3: "p_scope (issue_payload now a') = scope a"
      by (simp add: issue_payload_def same)
    have o4: "p_oid (issue_payload now a') = userId a"
      by (simp add: issue_payload_def same)
    have o5: "MS L (Some (expiresIn (issue_options C tm a'))) = Inr t"
      using h(6) ht by (simp add: issue_options_def)
    have sign: "\<exists>k tm. httpSecret C = Some k \<and> httpTimeout C = Some tm
              \<and> JWT_sign L (issue_payload now a') k (issue_options C tm a') now = Inr tok
              \<and> opt_subject (issue_options C tm a') = subject a
              \<and> p_role (issue_payload now a') = role a
              \<and> p_scope (issue_payload now a') = scope a
              \<and> p_oid (issue_payload now a') = userId a
              \<and> MS L (Some (expiresIn (issue_options C tm a'))) = Inr t"
      by (intro exI[of _ k] exI[of _ tm] conjI hk ht kt(3) o1 o2 o3 o4 o5)
    have later: "\<forall>x T. getTime ex = Some x \<and> t = Some T \<and> 4000 \<le> T
              \<longrightarrow> x < 1000 * stamped_exp now T"
    proof (intro allI impI, elim conjE)
      fix x T assume xt: "getTime ex = Some x" "t = Some T" "4000 \<le> T"
      from h(8) xt have "x - now \<le> T / 2"
        by (simp add: num_gt_def num_lt_def num_sub_def num_over_def)
      then show "x < 1000 * stamped_exp now T" using xt(3) by (rule stamped_exp_later)
    qed
    show "renew L C now a = (a'\<lparr>token := Val tok, renewed := True\<rparr>, None)
        \<and> subject a' = subject a \<and> role a' = role a \<and> scope a' = scope a
        \<and> userId a' = userId a
        \<and> (\<exists>k tm. httpSecret C = Some k \<and> httpTimeout C = Some tm
              \<and> JWT_sign L (issue_payload now a') k (issue_options C tm a') now = Inr tok
              \<and> opt_subject (issue_options C tm a') = subject a
              \<and> p_role (issue_payload now a') = role a
              \<and> p_scope (issue_payload now a') = scope a
              \<and> p_oid (issue_payload now a') = userId a
              \<and> MS L (Some (expiresIn (issue_options C tm a'))) = Inr t)
        \<and> (\<forall>x T. getTime ex = Some x \<and> t = Some T \<and> 4000 \<le> T
              \<longrightarrow> x < 1000 * stamped_exp now T)"
      by (intro conjI r same sign later)
  qed
qed


theorem renew_policy_witness:
  "renew (table_lib tokens) cfg 1000000
       (verified_auth (claims ''remote'' ''peer'' ''app'' ''Internal'' 900 900 1500) (Val ''tok-peer''))
     = ((verified_auth (claims ''remote'' ''peer'' ''app'' ''Internal'' 900 900 1500)
           (Val ''tok-peer''))\<lparr>renewed := False\<rparr>, None)
   \<and> renew (table_lib tokens) cfg 1000000 (verified_auth (user_claims 0 0 3600) (Val ''tok-user''))
     = ((verified_auth (user_claims 0 0 3600) (Val ''tok-user''))\<lparr>renewed := False\<rparr>, None)
   \<and> renew (table_lib tokens) cfg 2000000
       ((verified_auth (user_claims 0 0 3600) (Val ''tok-user''))
          \<lparr>expires := Some (Date (Some 3000000000))\<rparr>)
     = ((verified_auth (user_claims 0 0 3600) (Val ''tok-user''))
          \<lparr>expires := Some (Date (Some 3000000000)), renewed := False\<rparr>, None)
   \<and> renew (table_lib tokens) cfg 2000000 (verified_auth (user_claims 0 0 3600) (Val ''tok-user''))
     = ((verified_auth (user_claims 0 0 3600) (Val ''tok-user''))
          \<lparr>token := Val ''tok-user-2'', renewed := True\<rparr>, None)
   \<and> (3600000 :: real) < 1000 * stamped_exp 2000000 3600000"
proof (intro conjI)
  let ?L = "table_lib tokens"
  let ?p = "verified_auth (claims ''remote'' ''peer'' ''app'' ''Internal'' 900 900 1500) (Val ''tok-peer'')"
  let ?u = "verified_auth (user_claims 0 0 3600) (Val ''tok-user'')"
  let ?o = "?u\<lparr>expires := Some (Date (Some 3000000000))\<rparr>"
  have A: "issuer ?p \<noteq> Val (appId cfg) \<or> \<not> configured (httpLifetime cfg)
      \<or> (subject ?p \<noteq> Val ''user:internal'' \<and> subject ?p \<noteq> Val ''user:external'')"
    by (simp add: run_defs)
  from renew_policy [where a = ?p and C = cfg and L = ?L and now = 1000000,
      THEN conjunct1, THEN mp, OF A]
  show "renew ?L cfg 1000000 ?p = (?p\<lparr>renewed := False\<rparr>, None)" .
  have B: "expires ?u = Some (Date (Some 3600000)) \<and> MS ?L (httpTimeout cfg) = Inr (Some 3600000)
        \<and> num_gt (num_sub (getTime (Date (Some 3600000))) (Some 1000000))
             (num_over (Some 3600000) 2)"
    by (simp add: run_defs)
  from renew_policy [where a = ?u and C = cfg and L = ?L and now = 1000000,
      THEN conjunct2, THEN conjunct1, THEN mp, OF B]
  show "renew ?L cfg 1000000 ?u = (?u\<lparr>renewed := False\<rparr>, None)" .
  have C: "expires ?o = Some (Date (Some 3000000000)) \<and> serial ?o = Some (SerialDate (Date (Some 0)))
        \<and> MS ?L (httpTimeout cfg) = Inr (Some 3600000)
        \<and> MS ?L (httpLifetime cfg) = Inr (Some 2592000000)
        \<and> num_gt (num_sub (getTime (Date (Some 3000000000))) (getTime (Date (Some 0))))
             (Some 2592000000)"
    by (simp add: run_defs)
  from renew_policy [where a = ?o and C = cfg and L = ?L and now = 2000000,
      THEN conjunct2, THEN conjunct2, THEN conjunct1, THEN mp, OF C]
  show "renew ?L cfg 2000000 ?o
      = (?u\<lparr>expires := Some (Date (Some 3000000000)), renewed := False\<rparr>, None)" .
  have i: "issueToken ?L cfg 2000000 (?u\<lparr>renewed := False\<rparr>)
              = (?u\<lparr>renewed := False\<rparr>, Inr ''tok-user-2'')"
    by (simp add: issueToken_def issue_payload_def issue_options_def serial_ms_def
          stamped_claims_def stamped_exp_def run_defs)
  have D: "issuer ?u = Val (appId cfg) \<and> configured (httpLifetime cfg)
        \<and> (subject ?u = Val ''user:internal'' \<or> subject ?u = Val ''user:external'')
        \<and> expires ?u = Some (Date (Some 3600000)) \<and> serial ?u = Some (SerialDate (Date (Some 0)))
        \<and> MS ?L (httpTimeout cfg) = Inr (Some 3600000)
        \<and> MS ?L (httpLifetime cfg) = Inr (Some 2592000000)
        \<and> \<not> num_gt (num_sub (getTime (Date (Some 3600000))) (Some 2000000))
               (num_over (Some 3600000) 2)
        \<and> \<not> num_gt (num_sub (getTime (Date (Some 3600000))) (getTime (Date (Some 0))))
               (Some 2592000000)
        \<and> issueToken ?L cfg 2000000 (?u\<lparr>renewed := False\<rparr>)
              = (?u\<lparr>renewed := False\<rparr>, Inr ''tok-user-2'')"
    using i by (simp add: run_defs)
  note d = renew_policy [where a = ?u and C = cfg and L = ?L and now = 2000000,
      THEN conjunct2, THEN conjunct2, THEN conjunct2, THEN mp, OF D]
  from d [THEN conjunct1]
  show "renew ?L cfg 2000000 ?u = (?u\<lparr>token := Val ''tok-user-2'', renewed := True\<rparr>, None)"
    by simp
  from d [THEN conjunct2, THEN conjunct2, THEN conjunct2, THEN conjunct2, THEN conjunct2,
      THEN conjunct2, THEN spec, THEN spec, of 3600000 3600000]
  show "(3600000 :: real) < 1000 * stamped_exp 2000000 3600000"
    by simp
qed

end
